theory Spec2Isabelle
  imports Main
begin

section \<open>Strings and arrays of the JavaScript runtime\<close>

text \<open>
  The roster parser (\<^verbatim>\<open>parseRosterFromHtml\<close> and its helpers) works on the rendered text
  of table rows and cells. Texts are modelled as \<^typ>\<open>string\<close>, a character being a code unit
  below 256. The white space of \<^verbatim>\<open>\s\<close>, \<^verbatim>\<open>trim\<close> and \<^verbatim>\<open>parseInt\<close> is tab, line feed,
  vertical tab, form feed, carriage return, space and the no-break space U+00A0. Case
  conversion maps the 26 letters; the tokens the parser looks for are made of these, digits
  and punctuation.
\<close>

definition lowerLetters :: string where
  "lowerLetters = ''abcdefghijklmnopqrstuvwxyz''"

definition upperLetters :: string where
  "upperLetters = ''ABCDEFGHIJKLMNOPQRSTUVWXYZ''"

definition digitChars :: string where
  "digitChars = ''0123456789''"

definition toUpperChar :: "char \<Rightarrow> char" where
  "toUpperChar c = (case map_of (zip lowerLetters upperLetters) c of Some u \<Rightarrow> u | None \<Rightarrow> c)"

definition toLowerChar :: "char \<Rightarrow> char" where
  "toLowerChar c = (case map_of (zip upperLetters lowerLetters) c of Some l \<Rightarrow> l | None \<Rightarrow> c)"

definition toUpperCase :: "string \<Rightarrow> string" where
  "toUpperCase s = map toUpperChar s"

definition toLowerCase :: "string \<Rightarrow> string" where
  "toLowerCase s = map toLowerChar s"

text \<open>The character classes \<^verbatim>\<open>\s\<close>, \<^verbatim>\<open>\d\<close> and \<^verbatim>\<open>\w\<close> of the regular expressions.\<close>

definition isSpace :: "char \<Rightarrow> bool" where
  "isSpace c =
     (c \<in> set [CHR 0x09, CHR 0x0A, CHR 0x0B, CHR 0x0C, CHR 0x0D, CHR '' '', CHR 0xA0])"

definition isDigit :: "char \<Rightarrow> bool" where
  "isDigit c = (c \<in> set digitChars)"

definition isWordChar :: "char \<Rightarrow> bool" where
  "isWordChar c = (c \<in> set lowerLetters \<or> c \<in> set upperLetters \<or> isDigit c \<or> c = CHR ''_'')"

text \<open>\<^verbatim>\<open>s.trim()\<close>, \<^verbatim>\<open>s.replace(/\s/g, '')\<close>, \<^verbatim>\<open>s.startsWith(p)\<close>, \<^verbatim>\<open>s.includes(t)\<close>.\<close>

definition trim :: "string \<Rightarrow> string" where
  "trim s = rev (dropWhile isSpace (rev (dropWhile isSpace s)))"

definition removeSpaces :: "string \<Rightarrow> string" where
  "removeSpaces s = filter (\<lambda>c. \<not> isSpace c) s"

fun startsWith :: "string \<Rightarrow> string \<Rightarrow> bool" where
  "startsWith s [] = True"
| "startsWith [] (p # ps) = False"
| "startsWith (c # cs) (p # ps) = (c = p \<and> startsWith cs ps)"

fun includesStr :: "string \<Rightarrow> string \<Rightarrow> bool" where
  "includesStr [] t = (t = [])"
| "includesStr (c # cs) t = (startsWith (c # cs) t \<or> includesStr cs t)"

text \<open>
  \<^verbatim>\<open>s.split('\n')\<close>: the pieces between line feeds; the empty string gives one empty piece.
\<close>

fun splitLines :: "string \<Rightarrow> string list" where
  "splitLines [] = [[]]"
| "splitLines (c # cs) =
     (if c = CHR 0x0A then [] # splitLines cs
      else (case splitLines cs of [] \<Rightarrow> [[c]] | l # ls \<Rightarrow> (c # l) # ls))"

text \<open>
  \<^verbatim>\<open>n.toString()\<close> of an integer and \<^verbatim>\<open>parseInt(s, 10)\<close>. \<^verbatim>\<open>parseInt\<close> skips leading white
  space, reads an optional sign and then the longest run of decimal digits; with no digit the
  result is \<^verbatim>\<open>NaN\<close>, here \<open>None\<close>. Room numbers are far below \<open>2^53\<close>, where the
  runtime's numbers are exact integers, so they are modelled as \<^typ>\<open>int\<close>.
\<close>

definition digitChar :: "nat \<Rightarrow> char" where
  "digitChar n = digitChars ! n"

definition digitVal :: "char \<Rightarrow> nat" where
  "digitVal c = of_char c - 48"

fun natToString :: "nat \<Rightarrow> string" where
  "natToString n = (if n < 10 then [digitChar n] else natToString (n div 10) @ [digitChar (n mod 10)])"

declare natToString.simps [simp del]

definition toString :: "int \<Rightarrow> string" where
  "toString i = (if i < 0 then CHR ''-'' # natToString (nat (- i)) else natToString (nat i))"

definition digitsValue :: "string \<Rightarrow> nat" where
  "digitsValue ds = foldl (\<lambda>acc c. 10 * acc + digitVal c) 0 ds"

definition parseDigits :: "string \<Rightarrow> nat option" where
  "parseDigits s = (let ds = takeWhile isDigit s in if ds = [] then None else Some (digitsValue ds))"

definition parseInt :: "string \<Rightarrow> int option" where
  "parseInt s =
     (case dropWhile isSpace s of
        [] \<Rightarrow> None
      | c # cs \<Rightarrow>
          if c = CHR ''-'' then map_option (\<lambda>n. - int n) (parseDigits cs)
          else if c = CHR ''+'' then map_option int (parseDigits cs)
          else map_option int (parseDigits (c # cs)))"

text \<open>
  \<^verbatim>\<open>xs.findIndex((x, i) => p(x, i))\<close>: the index of the first element the callback accepts,
  or the sentinel \<open>-1\<close>. \<^verbatim>\<open>xs[i]\<close> is \<^verbatim>\<open>undefined\<close> (here \<open>None\<close>) outside the array, in
  particular at the sentinel.
\<close>

fun findIndexFrom :: "('a \<Rightarrow> int \<Rightarrow> bool) \<Rightarrow> int \<Rightarrow> 'a list \<Rightarrow> int" where
  "findIndexFrom p i [] = - 1"
| "findIndexFrom p i (x # xs) = (if p x i then i else findIndexFrom p (i + 1) xs)"

definition findIndex :: "('a \<Rightarrow> int \<Rightarrow> bool) \<Rightarrow> 'a list \<Rightarrow> int" where
  "findIndex p xs = findIndexFrom p 0 xs"

definition elemAt :: "'a list \<Rightarrow> int \<Rightarrow> 'a option" where
  "elemAt xs i = (if 0 \<le> i \<and> i < int (length xs) then Some (xs ! nat i) else None)"

section \<open>The document tree and the roster\<close>

text \<open>
  The parser reads the tree that \<^verbatim>\<open>DOMParser\<close> builds: \<^verbatim>\<open>doc.querySelectorAll('table')\<close>
  in document order, for each table its \<^verbatim>\<open>textContent\<close> and \<^verbatim>\<open>querySelectorAll('tr')\<close>, for
  each row its \<^verbatim>\<open>innerText\<close>, its \<^verbatim>\<open>cells\<close> and \<^verbatim>\<open>querySelectorAll('th,td')\<close>, for each cell
  its \<^verbatim>\<open>innerText\<close>, and \<^verbatim>\<open>doc.body.innerText\<close>. These are the fields below; the texts are
  whatever the browser reports and are not recomputed from the children.
\<close>

record Cell =
  cellInnerText :: string

record Row =
  rowInnerText :: string
  cells :: "Cell list"
  thtdCells :: "Cell list"

record Table =
  textContent :: string
  trRows :: "Row list"

record Document =
  tables :: "Table list"
  bodyInnerText :: string

text \<open>\<^verbatim>\<open>types.ts\<close>: \<^verbatim>\<open>AssignmentRow\<close> and \<^verbatim>\<open>Roster\<close>.\<close>

record AssignmentRow =
  room :: string
  prec :: string
  patient :: string
  mrn :: string
  status :: string
  rnDay :: string
  extDay :: string
  rnNight :: string
  extNight :: string

record 'a Shifts =
  day :: 'a
  night :: 'a

record Roster =
  date :: string
  pctsDay :: string
  pctsNight :: string
  chargeNurses :: "string Shifts"
  assignments :: "AssignmentRow list"
  floats :: "string list Shifts"
  respiratory :: "string list"

text \<open>A thrown \<^verbatim>\<open>Error\<close> with its message, and the \<^verbatim>\<open>TypeError\<close> of reading a property of
  \<^verbatim>\<open>undefined\<close>.\<close>

datatype error = Error string | TypeError

section \<open>Cell text and header mapping\<close>

definition getCellText :: "Cell option \<Rightarrow> string" where
  "getCellText cell = (case cell of None \<Rightarrow> [] | Some c \<Rightarrow> trim (cellInnerText c))"

definition extractListFromCell :: "Cell option \<Rightarrow> string list" where
  "extractListFromCell cell = filter (\<lambda>s. s \<noteq> []) (map trim (splitLines (getCellText cell)))"

text \<open>
  \<^verbatim>\<open>autoMapHeaders\<close>: the callback of its \<^verbatim>\<open>findIndex\<close> is \<open>headerMatches\<close>, and the loop over
  the keys stores one index per key in the object \<^verbatim>\<open>colIdx\<close>, here a map. The keys are
  ordinary property names; the one caller passes the nine keys of \<open>gridKeys\<close>.
\<close>

definition headerMatches :: "string \<Rightarrow> string \<Rightarrow> bool" where
  "headerMatches key h = includesStr (toLowerCase (removeSpaces h)) (removeSpaces (toLowerCase key))"

fun autoMapLoop :: "string list \<Rightarrow> string list \<Rightarrow> (string \<rightharpoonup> int) \<Rightarrow> (string \<rightharpoonup> int)" where
  "autoMapLoop headerCells [] colIdx = colIdx"
| "autoMapLoop headerCells (key # keys) colIdx =
     autoMapLoop headerCells keys
       (colIdx(key \<mapsto> findIndex (\<lambda>h i. headerMatches key h) headerCells))"

definition autoMapHeaders :: "string list \<Rightarrow> string list \<Rightarrow> (string \<rightharpoonup> int)" where
  "autoMapHeaders headerCells keys = autoMapLoop headerCells keys Map.empty"

section \<open>The assignment grid and the bottom section\<close>

definition defaultRow :: "int \<Rightarrow> AssignmentRow" where
  "defaultRow n =
     \<lparr>room = toString n, prec = [], patient = [], mrn = [], status = [],
      rnDay = [], extDay = [], rnNight = [], extNight = []\<rparr>"

text \<open>
  \<^verbatim>\<open>Array.from({ length: numRooms }, (_, i) => ...)\<close>: a length that is not positive gives the
  empty array.
\<close>

definition initialAssignments :: "int \<Rightarrow> int \<Rightarrow> AssignmentRow list" where
  "initialAssignments startRoom endRoom =
     map (\<lambda>i. defaultRow (startRoom + int i)) [0 ..< nat (endRoom - startRoom + 1)]"

definition isGridHeader :: "Row \<Rightarrow> bool" where
  "isGridHeader r =
     (rowInnerText r \<noteq> [] \<and> includesStr (toUpperCase (rowInnerText r)) ''ROOM''
      \<and> includesStr (toUpperCase (rowInnerText r)) ''PATIENT'')"

definition gridKeys :: "string list" where
  "gridKeys = [''room'', ''prec'', ''patient'', ''mrn'', ''status'', ''rnday'', ''extday'',
     ''rnnight'', ''extnight'']"

text \<open>The test \<^verbatim>\<open>/(FLOAT|RESPIRATORY|CPU)/i\<close>: one of the three words, in any case.\<close>

definition isBottomLabel :: "string \<Rightarrow> bool" where
  "isBottomLabel txt =
     (includesStr (toUpperCase txt) ''FLOAT'' \<or> includesStr (toUpperCase txt) ''RESPIRATORY''
      \<or> includesStr (toUpperCase txt) ''CPU'')"

text \<open>
  \<^verbatim>\<open>cells[colMap[key]]\<close>: a key that is not in the map, the sentinel \<open>-1\<close> and an index
  past the row's cells all read \<^verbatim>\<open>undefined\<close>.
\<close>

definition cellOf :: "(string \<rightharpoonup> int) \<Rightarrow> Cell list \<Rightarrow> string \<Rightarrow> Cell option" where
  "cellOf colMap cs key = (case colMap key of None \<Rightarrow> None | Some i \<Rightarrow> elemAt cs i)"

definition buildRow :: "(string \<rightharpoonup> int) \<Rightarrow> Cell list \<Rightarrow> string \<Rightarrow> AssignmentRow" where
  "buildRow colMap cs roomStr =
     \<lparr>room = roomStr,
      prec = getCellText (cellOf colMap cs ''prec''),
      patient = getCellText (cellOf colMap cs ''patient''),
      mrn = getCellText (cellOf colMap cs ''mrn''),
      status = getCellText (cellOf colMap cs ''status''),
      rnDay = getCellText (cellOf colMap cs ''rnday''),
      extDay = getCellText (cellOf colMap cs ''extday''),
      rnNight = getCellText (cellOf colMap cs ''rnnight''),
      extNight = getCellText (cellOf colMap cs ''extnight'')\<rparr>"

text \<open>
  One turn of the assignment loop. The index \<open>room - startRoom\<close> lies inside the array
  whenever the range test passes, so the write never extends it.
\<close>

definition placeRow ::
  "int \<Rightarrow> int \<Rightarrow> (string \<rightharpoonup> int) \<Rightarrow> AssignmentRow list \<Rightarrow> Row \<Rightarrow> AssignmentRow list" where
  "placeRow startRoom endRoom colMap asg row =
     (let roomStr = getCellText (cellOf colMap (cells row) ''room'') in
      case parseInt roomStr of
        None \<Rightarrow> asg
      | Some rm \<Rightarrow>
          if rm \<ge> startRoom \<and> rm \<le> endRoom
          then asg[nat (rm - startRoom) := buildRow colMap (cells row) roomStr]
          else asg)"

fun assignmentLoop ::
  "int \<Rightarrow> int \<Rightarrow> (string \<rightharpoonup> int) \<Rightarrow> AssignmentRow list \<Rightarrow> Row list \<Rightarrow> AssignmentRow list" where
  "assignmentLoop startRoom endRoom colMap asg [] = asg"
| "assignmentLoop startRoom endRoom colMap asg (row # rows) =
     assignmentLoop startRoom endRoom colMap (placeRow startRoom endRoom colMap asg row) rows"

record Bottom =
  bFloats :: "string list Shifts"
  bRespiratory :: "string list"

definition bottomRow :: "Bottom \<Rightarrow> Row \<Rightarrow> Bottom" where
  "bottomRow b row =
     (let txt = toUpperCase (rowInnerText row);
          first = extractListFromCell (elemAt (cells row) 0);
          b1 = (if (includesStr txt ''FLOATS'' \<or> includesStr txt ''FLOAT'') \<and> includesStr txt ''7A-7P''
                then b\<lparr>bFloats := (bFloats b)\<lparr>day := first\<rparr>\<rparr> else b);
          b2 = (if (includesStr txt ''FLOATS'' \<or> includesStr txt ''FLOAT'') \<and> includesStr txt ''7P-7A''
                then b1\<lparr>bFloats := (bFloats b1)\<lparr>night := first\<rparr>\<rparr> else b1)
      in if includesStr txt ''RESPIRATORY'' then b2\<lparr>bRespiratory := first\<rparr> else b2)"

record GridResult =
  gAssignments :: "AssignmentRow list"
  gFloats :: "string list Shifts"
  gRespiratory :: "string list"

text \<open>
  \<^verbatim>\<open>parseAssignmentsAndBottomSection(rows, startRoom, endRoom)\<close>. The two \<^verbatim>\<open>for\<close> loops run
  over the rows \<open>headerRowIdx + 1, ..., gridEndIdx - 1\<close> and \<open>gridEndIdx, ...\<close>, the slices
  \<open>gridBody\<close> and \<open>drop gridEndIdx rows\<close>. The header row \<^verbatim>\<open>rows[headerRowIdx]\<close> is read
  only after the test for the sentinel, where the index lies inside the rows.
\<close>

definition headerRowIdx :: "Row list \<Rightarrow> int" where
  "headerRowIdx rows = findIndex (\<lambda>r i. isGridHeader r) rows"

definition gridEndIdx :: "Row list \<Rightarrow> int" where
  "gridEndIdx rows =
     (let e = findIndex (\<lambda>r i. i > headerRowIdx rows \<and> isBottomLabel (rowInnerText r)) rows
      in if e = - 1 then int (length rows) else e)"

definition gridColMap :: "Row list \<Rightarrow> (string \<rightharpoonup> int)" where
  "gridColMap rows =
     autoMapHeaders
       (map (\<lambda>c. getCellText (Some c)) (thtdCells (rows ! nat (headerRowIdx rows)))) gridKeys"

definition gridBody :: "Row list \<Rightarrow> Row list" where
  "gridBody rows =
     take (nat (gridEndIdx rows - (headerRowIdx rows + 1))) (drop (nat (headerRowIdx rows + 1)) rows)"

definition parseAssignmentsAndBottomSection :: "Row list \<Rightarrow> int \<Rightarrow> int \<Rightarrow> error + GridResult" where
  "parseAssignmentsAndBottomSection rows startRoom endRoom =
     (if headerRowIdx rows = - 1 then Inl (Error ''Assignment table header not found.'')
      else
        let asg = assignmentLoop startRoom endRoom (gridColMap rows)
                    (initialAssignments startRoom endRoom) (gridBody rows);
            b = foldl bottomRow \<lparr>bFloats = \<lparr>day = [], night = []\<rparr>, bRespiratory = []\<rparr>
                  (drop (nat (gridEndIdx rows)) rows)
        in Inr \<lparr>gAssignments = asg, gFloats = bFloats b, gRespiratory = bRespiratory b\<rparr>)"

section \<open>Dates\<close>

text \<open>
  The runtime's part in \<^verbatim>\<open>parseDate\<close>: \<open>clock\<close> is the time value of \<^verbatim>\<open>new Date()\<close>
  (milliseconds since 1970-01-01T00:00Z), \<open>dateParse s\<close> is the time value of
  \<^verbatim>\<open>new Date(s)\<close>, with \<open>None\<close> for an invalid date (\<^verbatim>\<open>isNaN(d.getTime())\<close>). Reading a string
  that is not in the ISO format is left to the engine by the language standard, so the
  parser is a parameter.
\<close>

record Runtime =
  clock :: int
  dateParse :: "string \<Rightarrow> int option"

text \<open>
  \<^verbatim>\<open>d.toISOString()\<close> writes the time value in UTC as \<^verbatim>\<open>YYYY-MM-DDTHH:mm:ss.sssZ\<close>, with a
  signed six-digit year outside 0000..9999. \<open>civilFromDays\<close> turns a day number (days since
  1970-01-01) into year, month and day of the proleptic Gregorian calendar: it counts from
  0000-03-01 in cycles of 400, 100, 4 and 1 years.
\<close>

definition civilFromDays :: "int \<Rightarrow> int \<times> int \<times> int" where
  "civilFromDays days =
     (let z = days + 719468;
          era = z div 146097;
          doe = z mod 146097;
          n100 = min 3 (doe div 36524);
          r1 = doe - n100 * 36524;
          n4 = r1 div 1461;
          r2 = r1 mod 1461;
          n1 = min 3 (r2 div 365);
          doy = r2 - n1 * 365;
          y = era * 400 + n100 * 100 + n4 * 4 + n1;
          mp = (5 * doy + 2) div 153;
          d = doy - (153 * mp + 2) div 5 + 1;
          m = (if mp < 10 then mp + 3 else mp - 9)
      in (if m \<le> 2 then y + 1 else y, m, d))"

definition padStart :: "nat \<Rightarrow> nat \<Rightarrow> string" where
  "padStart w n = replicate (w - length (natToString n)) (CHR ''0'') @ natToString n"

definition isoYear :: "int \<Rightarrow> string" where
  "isoYear y =
     (if 0 \<le> y \<and> y \<le> 9999 then padStart 4 (nat y)
      else (if y < 0 then CHR ''-'' else CHR ''+'') # padStart 6 (nat \<bar>y\<bar>))"

definition toISOString :: "int \<Rightarrow> string" where
  "toISOString t =
     (let days = t div 86400000;
          ms = t mod 86400000;
          (y, m, d) = civilFromDays days
      in isoYear y @ ''-'' @ padStart 2 (nat m) @ ''-'' @ padStart 2 (nat d) @ ''T''
         @ padStart 2 (nat (ms div 3600000)) @ '':''
         @ padStart 2 (nat (ms div 60000 mod 60)) @ '':''
         @ padStart 2 (nat (ms div 1000 mod 60)) @ ''.''
         @ padStart 3 (nat (ms mod 1000)) @ ''Z'')"

text \<open>\<^verbatim>\<open>d.toISOString().split('T')[0]\<close>: the text before the first \<^verbatim>\<open>T\<close>.\<close>

definition isoDate :: "int \<Rightarrow> string" where
  "isoDate t = takeWhile (\<lambda>c. c \<noteq> CHR ''T'') (toISOString t)"

text \<open>
  The regular expression of \<^verbatim>\<open>parseDate\<close>,
  \<^verbatim>\<open>/\b(?:mon|tue|wed|thu|fri|sat|sun)\w*,?\s+\w+\s+\d{1,2}(?:st|nd|rd|th)?,?\s+\d{4}\b/i\<close>.
  Each repetition is followed by a character its own class excludes, so the longest run is
  the only one that can lead to a match; \<open>matchLongDate\<close> reads the pattern from left to
  right at one position and returns the matched text.
\<close>

definition weekdayPrefixes :: "string list" where
  "weekdayPrefixes = [''mon'', ''tue'', ''wed'', ''thu'', ''fri'', ''sat'', ''sun'']"

definition ordinalSuffixes :: "string list" where
  "ordinalSuffixes = [''st'', ''nd'', ''rd'', ''th'']"

definition startsWithAny :: "string \<Rightarrow> string list \<Rightarrow> bool" where
  "startsWithAny s ps = list_ex (startsWith s) ps"

definition dropOptional :: "(string \<Rightarrow> bool) \<Rightarrow> nat \<Rightarrow> string \<Rightarrow> string" where
  "dropOptional p n s = (if p s then drop n s else s)"

definition atWordEnd :: "string \<Rightarrow> bool" where
  "atWordEnd s = (case s of [] \<Rightarrow> True | c # cs \<Rightarrow> \<not> isWordChar c)"

definition matchLongDate :: "string \<Rightarrow> string option" where
  "matchLongDate s =
     (if \<not> startsWithAny (toLowerCase (take 3 s)) weekdayPrefixes then None
      else
        let r1 = dropWhile isWordChar (drop 3 s);
            r2 = dropOptional (\<lambda>r. startsWith r '','') 1 r1;
            r3 = dropWhile isSpace r2;
            r4 = dropWhile isWordChar r3;
            r5 = dropWhile isSpace r4;
            r6 = drop (length (takeWhile isDigit (take 2 r5))) r5;
            r7 = dropOptional (\<lambda>r. startsWithAny (toLowerCase (take 2 r)) ordinalSuffixes) 2 r6;
            r8 = dropOptional (\<lambda>r. startsWith r '','') 1 r7;
            r9 = dropWhile isSpace r8;
            r10 = drop 4 r9
        in if r3 \<noteq> r2 \<and> r4 \<noteq> r3 \<and> r5 \<noteq> r4 \<and> r6 \<noteq> r5 \<and> r9 \<noteq> r8
              \<and> length (takeWhile isDigit (take 4 r9)) = 4 \<and> atWordEnd r10
           then Some (take (length s - length r10) s) else None)"

text \<open>
  \<^verbatim>\<open>input.match(re)\<close> takes the leftmost position at which the pattern matches.
  \<open>searchWord\<close> is for a pattern that starts with \<^verbatim>\<open>\b\<close> and a letter: the position must not
  follow a word character.
\<close>

fun search :: "(string \<Rightarrow> 'a option) \<Rightarrow> string \<Rightarrow> 'a option" where
  "search m [] = m []"
| "search m (c # cs) = (case m (c # cs) of Some r \<Rightarrow> Some r | None \<Rightarrow> search m cs)"

fun searchWordFrom :: "(string \<Rightarrow> 'a option) \<Rightarrow> bool \<Rightarrow> string \<Rightarrow> 'a option" where
  "searchWordFrom m afterWord [] = None"
| "searchWordFrom m afterWord (c # cs) =
     (case (if afterWord then None else m (c # cs)) of
        Some r \<Rightarrow> Some r
      | None \<Rightarrow> searchWordFrom m (isWordChar c) cs)"

definition searchWord :: "(string \<Rightarrow> 'a option) \<Rightarrow> string \<Rightarrow> 'a option" where
  "searchWord m s = searchWordFrom m False s"

text \<open>
  \<^verbatim>\<open>.replace(/(\d{1,2})(st|nd|rd|th)/, '$1')\<close> removes the first lower-case ordinal suffix
  that follows one or two digits; \<^verbatim>\<open>.replace(/,\s+/g, ' ')\<close> turns every comma with the white
  space after it into one space.
\<close>

fun stripOrdinal :: "string \<Rightarrow> string" where
  "stripOrdinal [] = []"
| "stripOrdinal (c # cs) =
     (if isDigit c \<and> cs \<noteq> [] \<and> isDigit (hd cs) \<and> startsWithAny (tl cs) ordinalSuffixes
      then c # hd cs # drop 2 (tl cs)
      else if isDigit c \<and> startsWithAny cs ordinalSuffixes then c # drop 2 cs
      else c # stripOrdinal cs)"

function replaceCommaSpace :: "string \<Rightarrow> string" where
  "replaceCommaSpace [] = []"
| "replaceCommaSpace (c # cs) =
     (if c = CHR '','' \<and> cs \<noteq> [] \<and> isSpace (hd cs)
      then CHR '' '' # replaceCommaSpace (dropWhile isSpace cs)
      else c # replaceCommaSpace cs)"
  by pat_completeness auto
termination
  by (relation "measure length") (auto simp: length_dropWhile_le less_Suc_eq_le)

text \<open>The fallback patterns \<^verbatim>\<open>/\d{4}-\d{2}-\d{2}/\<close> and \<^verbatim>\<open>/\d{1,2}\/\d{1,2}\/\d{2,4}/\<close>.\<close>

definition matchIsoDate :: "string \<Rightarrow> string option" where
  "matchIsoDate s =
     (if length s \<ge> 10 \<and> list_all isDigit (take 4 s) \<and> s ! 4 = CHR ''-''
         \<and> list_all isDigit (take 2 (drop 5 s)) \<and> s ! 7 = CHR ''-''
         \<and> list_all isDigit (take 2 (drop 8 s))
      then Some (take 10 s) else None)"

definition matchSlashDate :: "string \<Rightarrow> string option" where
  "matchSlashDate s =
     (let r1 = drop (length (takeWhile isDigit (take 2 s))) s;
          r2 = drop 1 r1;
          r3 = drop (length (takeWhile isDigit (take 2 r2))) r2;
          r4 = drop 1 r3;
          r5 = drop (length (takeWhile isDigit (take 4 r4))) r4
      in if r1 \<noteq> s \<and> startsWith r1 ''/'' \<and> r3 \<noteq> r2 \<and> startsWith r3 ''/''
            \<and> length (takeWhile isDigit (take 4 r4)) \<ge> 2
         then Some (take (length s - length r5) s) else None)"

definition longDateMatch :: "string \<Rightarrow> string option" where
  "longDateMatch input = searchWord matchLongDate input"

definition fallbackMatch :: "string \<Rightarrow> string option" where
  "fallbackMatch input =
     (case search matchIsoDate input of Some f \<Rightarrow> Some f | None \<Rightarrow> search matchSlashDate input)"

definition cleaned :: "string \<Rightarrow> string" where
  "cleaned m = replaceCommaSpace (stripOrdinal m)"

definition parseDate :: "Runtime \<Rightarrow> string \<Rightarrow> string" where
  "parseDate rt input =
     (case Option.bind (longDateMatch input) (\<lambda>m. dateParse rt (cleaned m)) of
        Some t \<Rightarrow> isoDate t
      | None \<Rightarrow>
          (case Option.bind (fallbackMatch input) (dateParse rt) of
             Some t \<Rightarrow> isoDate t
           | None \<Rightarrow> isoDate (clock rt)))"

section \<open>The information table\<close>

text \<open>
  \<^verbatim>\<open>/\b(?:mon|tue|wed|thu|fri|sat|sun)/.test(txt)\<close>: the pattern has no \<^verbatim>\<open>i\<close> flag, so it
  asks for a lower-case weekday prefix.
\<close>

definition matchWeekday :: "string \<Rightarrow> unit option" where
  "matchWeekday s = (if startsWithAny (take 3 s) weekdayPrefixes then Some () else None)"

definition weekdayTest :: "string \<Rightarrow> bool" where
  "weekdayTest txt = (searchWord matchWeekday txt \<noteq> None)"

text \<open>
  \<^verbatim>\<open>/CHARGE NURSE:\s*([\w\-]+)/i\<close>: the marker with its colon in any case, white space, and
  then at least one word character or hyphen; group 1 is the longest such run.
\<close>

definition isTokenChar :: "char \<Rightarrow> bool" where
  "isTokenChar c = (isWordChar c \<or> c = CHR ''-'')"

definition matchChargeNurse :: "string \<Rightarrow> string option" where
  "matchChargeNurse s =
     (if toUpperCase (take 13 s) = ''CHARGE NURSE:''
      then (let tok = takeWhile isTokenChar (dropWhile isSpace (drop 13 s))
            in if tok = [] then None else Some tok)
      else None)"

text \<open>
  \<^verbatim>\<open>/PCT\S*:?\s*(.+?)\s*(?:7[aA]-7[pP]|DAY)/\<close> and its night twin. \<open>shiftToken\<close> is the final
  alternative; it starts with a character that is not white space, so the \<^verbatim>\<open>\s*\<close> before it
  takes all the white space there is. Group 1 is lazy: the shortest non-empty text without a
  line break after which the rest matches. The greedy prefix \<^verbatim>\<open>\S*:?\s*\<close> is tried longest
  first; \<open>pctStarts\<close> lists the texts that can follow it in the order the matcher tries them.
\<close>

definition shiftToken :: "char \<Rightarrow> char \<Rightarrow> string \<Rightarrow> string \<Rightarrow> bool" where
  "shiftToken a p word s =
     ((case s of
         c1 # c2 # c3 # c4 # c5 # rest \<Rightarrow>
           c1 = CHR ''7'' \<and> toLowerChar c2 = a \<and> c3 = CHR ''-'' \<and> c4 = CHR ''7'' \<and> toLowerChar c5 = p
       | _ \<Rightarrow> False)
      \<or> startsWith s word)"

definition isLineBreak :: "char \<Rightarrow> bool" where
  "isLineBreak c = (c = CHR 0x0A \<or> c = CHR 0x0D)"

fun lazyGroup :: "(string \<Rightarrow> bool) \<Rightarrow> string \<Rightarrow> string \<Rightarrow> string option" where
  "lazyGroup tok acc [] = None"
| "lazyGroup tok acc (c # cs) =
     (if isLineBreak c then None
      else if tok (dropWhile isSpace cs) then Some (acc @ [c])
      else lazyGroup tok (acc @ [c]) cs)"

definition afterSpaces :: "string \<Rightarrow> string list" where
  "afterSpaces s = map (\<lambda>j. drop j s) (rev [0 ..< Suc (length (takeWhile isSpace s))])"

definition pctStarts :: "string \<Rightarrow> string list" where
  "pctStarts s =
     concat (map (\<lambda>k. (if startsWith (drop k s) '':'' then afterSpaces (drop (Suc k) s) else [])
                       @ afterSpaces (drop k s))
               (rev [0 ..< Suc (length (takeWhile (\<lambda>c. \<not> isSpace c) s))]))"

fun firstSome :: "('a \<Rightarrow> 'b option) \<Rightarrow> 'a list \<Rightarrow> 'b option" where
  "firstSome f [] = None"
| "firstSome f (x # xs) = (case f x of Some y \<Rightarrow> Some y | None \<Rightarrow> firstSome f xs)"

definition matchPct :: "(string \<Rightarrow> bool) \<Rightarrow> string \<Rightarrow> string option" where
  "matchPct tok s =
     (if startsWith s ''PCT'' then firstSome (lazyGroup tok []) (pctStarts (drop 3 s)) else None)"

text \<open>
  \<^verbatim>\<open>Partial<Roster>\<close> as \<^verbatim>\<open>parseInfoTable\<close> fills it: \<^verbatim>\<open>chargeNurses\<close> is always there, the
  other three fields may be \<^verbatim>\<open>undefined\<close>.
\<close>

record PartialRoster =
  infoDate :: "string option"
  infoPctsDay :: "string option"
  infoPctsNight :: "string option"
  infoChargeNurses :: "string Shifts"

definition infoRow :: "Runtime \<Rightarrow> PartialRoster \<Rightarrow> Row \<Rightarrow> PartialRoster" where
  "infoRow rt roster row =
     (let txt = toUpperCase (rowInnerText row);
          isDay = (includesStr txt ''7A-7P'' \<or> includesStr txt ''DAY'');
          isNight = (includesStr txt ''7P-7A'' \<or> includesStr txt ''NIGHT'');
          r1 = (if (infoDate roster = None \<or> infoDate roster = Some []) \<and> weekdayTest txt
                then roster\<lparr>infoDate := Some (parseDate rt txt)\<rparr> else roster);
          r2 = (if includesStr txt ''PCT'' \<and> isDay
                then (case search (matchPct (shiftToken CHR ''a'' CHR ''p'' ''DAY'')) (rowInnerText row) of
                        Some m \<Rightarrow> r1\<lparr>infoPctsDay := Some (trim m)\<rparr> | None \<Rightarrow> r1)
                else r1);
          r3 = (if includesStr txt ''PCT'' \<and> isNight
                then (case search (matchPct (shiftToken CHR ''p'' CHR ''a'' ''NIGHT'')) (rowInnerText row) of
                        Some m \<Rightarrow> r2\<lparr>infoPctsNight := Some (trim m)\<rparr> | None \<Rightarrow> r2)
                else r2);
          r4 = (if includesStr txt ''CHARGE NURSE'' \<and> isDay
                then (case search matchChargeNurse (rowInnerText row) of
                        Some m \<Rightarrow> r3\<lparr>infoChargeNurses := (infoChargeNurses r3)\<lparr>day := trim m\<rparr>\<rparr>
                      | None \<Rightarrow> r3)
                else r3)
      in if includesStr txt ''CHARGE NURSE'' \<and> isNight
         then (case search matchChargeNurse (rowInnerText row) of
                 Some m \<Rightarrow> r4\<lparr>infoChargeNurses := (infoChargeNurses r4)\<lparr>night := trim m\<rparr>\<rparr>
               | None \<Rightarrow> r4)
         else r4)"

definition parseInfoTable :: "Runtime \<Rightarrow> Table \<Rightarrow> PartialRoster" where
  "parseInfoTable rt table =
     foldl (infoRow rt)
       \<lparr>infoDate = None, infoPctsDay = None, infoPctsNight = None,
        infoChargeNurses = \<lparr>day = [], night = []\<rparr>\<rparr>
       (trRows table)"

section \<open>The entry point\<close>

text \<open>
  \<^verbatim>\<open>parseRosterFromHtml\<close>, from the tree of the parsed document on. The information table is
  the first table whose text has the marker, else \<^verbatim>\<open>tables[0]\<close>, which is \<^verbatim>\<open>undefined\<close> for a
  document without tables; \<open>infoTableIdx\<close> is its position. The filter \<^verbatim>\<open>t !== infoTable\<close>
  compares nodes, that is positions in the list.
\<close>

definition isInfoTable :: "Table \<Rightarrow> bool" where
  "isInfoTable t = includesStr (toUpperCase (textContent t)) ''CHARGE NURSE''"

definition infoTableIdx :: "Table list \<Rightarrow> int option" where
  "infoTableIdx ts =
     (let i = findIndex (\<lambda>t i. isInfoTable t) ts
      in if i \<noteq> - 1 then Some i else if ts = [] then None else Some 0)"

definition contentRows :: "Table list \<Rightarrow> Row list" where
  "contentRows ts =
     concat (map (\<lambda>(i, t). trRows t)
       (filter (\<lambda>(i, t). Some (int i) \<noteq> infoTableIdx ts) (enumerate 0 ts)))"

definition orEmpty :: "string option \<Rightarrow> string" where
  "orEmpty v = (case v of None \<Rightarrow> [] | Some s \<Rightarrow> s)"

definition parseRosterFromHtml :: "Runtime \<Rightarrow> Document \<Rightarrow> error + Roster" where
  "parseRosterFromHtml rt doc =
     (let dateFromBody = parseDate rt (bodyInnerText doc) in
      case parseAssignmentsAndBottomSection (contentRows (tables doc)) 501 532 of
        Inl e \<Rightarrow> Inl e
      | Inr g \<Rightarrow>
          (case infoTableIdx (tables doc) of
             None \<Rightarrow> Inl TypeError
           | Some k \<Rightarrow>
               let info = parseInfoTable rt (tables doc ! nat k);
                   finalDate =
                     (if orEmpty (infoDate info) \<noteq> [] then orEmpty (infoDate info)
                      else if dateFromBody \<noteq> [] then dateFromBody
                      else isoDate (clock rt))
               in Inr \<lparr>date = finalDate,
                       pctsDay = orEmpty (infoPctsDay info),
                       pctsNight = orEmpty (infoPctsNight info),
                       chargeNurses = infoChargeNurses info,
                       assignments = gAssignments g,
                       floats = gFloats g,
                       respiratory = gRespiratory g\<rparr>))"

section \<open>An engine for the examples\<close>

text \<open>
  What the browsers' engines do with the two shapes of string the examples hand to
  \<^verbatim>\<open>new Date\<close>: a date-only ISO string \<^verbatim>\<open>YYYY-MM-DD\<close> is midnight UTC (by the language
  standard), and \<^verbatim>\<open>weekday month day year\<close> in words is midnight local time. \<open>tz\<close> is the
  local zone's offset from UTC in minutes, positive east of Greenwich. The weekday word is
  not checked against the date, the month is known by its first three letters, and every
  other string is an invalid date in this instance; so are the years below 1000 in words,
  which the engines do not all read alike.
\<close>

definition daysFromCivil :: "int \<Rightarrow> int \<Rightarrow> int \<Rightarrow> int" where
  "daysFromCivil y m d =
     (let y1 = (if m \<le> 2 then y - 1 else y);
          era = y1 div 400;
          yoe = y1 mod 400;
          doy = (153 * (if m > 2 then m - 3 else m + 9) + 2) div 5 + d - 1;
          doe = yoe * 365 + yoe div 4 - yoe div 100 + doy
      in era * 146097 + doe - 719468)"

definition monthPrefixes :: "string list" where
  "monthPrefixes = [''jan'', ''feb'', ''mar'', ''apr'', ''may'', ''jun'', ''jul'', ''aug'', ''sep'',
     ''oct'', ''nov'', ''dec'']"

definition monthNumber :: "string \<Rightarrow> int option" where
  "monthNumber w =
     (let i = findIndex (\<lambda>p i. toLowerCase (take 3 w) = p) monthPrefixes
      in if i = - 1 then None else Some (i + 1))"

definition allDigits :: "string \<Rightarrow> bool" where
  "allDigits s = (s \<noteq> [] \<and> list_all isDigit s)"

fun splitSpaces :: "string \<Rightarrow> string list" where
  "splitSpaces [] = [[]]"
| "splitSpaces (c # cs) =
     (if c = CHR '' '' then [] # splitSpaces cs
      else (case splitSpaces cs of [] \<Rightarrow> [[c]] | w # ws \<Rightarrow> (c # w) # ws))"

definition isoDateOnly :: "string \<Rightarrow> int option" where
  "isoDateOnly s =
     (if matchIsoDate s = Some s
      then (let y = int (digitsValue (take 4 s));
                m = int (digitsValue (take 2 (drop 5 s)));
                d = int (digitsValue (take 2 (drop 8 s)))
            in if 1 \<le> m \<and> m \<le> 12 \<and> 1 \<le> d \<and> d \<le> 31
               then Some (daysFromCivil y m d * 86400000) else None)
      else None)"

definition localLongDate :: "int \<Rightarrow> string \<Rightarrow> int option" where
  "localLongDate tz s =
     (case splitSpaces s of
        [wd, mon, d, y] \<Rightarrow>
          (case monthNumber mon of
             None \<Rightarrow> None
           | Some m \<Rightarrow>
               if startsWithAny (toLowerCase (take 3 wd)) weekdayPrefixes
                  \<and> allDigits d \<and> length d \<le> 2 \<and> allDigits y \<and> length y = 4
                  \<and> 1 \<le> digitsValue d \<and> digitsValue d \<le> 31 \<and> 1000 \<le> digitsValue y
               then Some (daysFromCivil (int (digitsValue y)) m (int (digitsValue d)) * 86400000
                          - tz * 60000)
               else None)
      | _ \<Rightarrow> None)"

definition browser :: "int \<Rightarrow> int \<Rightarrow> Runtime" where
  "browser tz now =
     \<lparr>clock = now,
      dateParse = (\<lambda>s. case isoDateOnly s of Some t \<Rightarrow> Some t | None \<Rightarrow> localLongDate tz s)\<rparr>"

section \<open>Notions used in the statements\<close>

text \<open>
  A body row claims room \<open>rm\<close> when the text of its room cell reads as the integer \<open>rm\<close>
  and \<open>rm\<close> lies in the configured range.
\<close>

definition roomText :: "(string \<rightharpoonup> int) \<Rightarrow> Row \<Rightarrow> string" where
  "roomText colMap row = getCellText (cellOf colMap (cells row) ''room'')"

definition claimsRoom :: "int \<Rightarrow> int \<Rightarrow> (string \<rightharpoonup> int) \<Rightarrow> Row \<Rightarrow> int \<Rightarrow> bool" where
  "claimsRoom startRoom endRoom colMap row rm =
     (parseInt (roomText colMap row) = Some rm \<and> startRoom \<le> rm \<and> rm \<le> endRoom)"

text \<open>\<open>t\<close> is a substring of \<open>s\<close>.\<close>

definition substringOf :: "string \<Rightarrow> string \<Rightarrow> bool" where
  "substringOf t s = (\<exists>p q. s = p @ t @ q)"



text \<open>Slot \<open>i\<close> holds a room text that reads as the integer \<open>startRoom + i\<close>.\<close>

definition roomsInOrder :: "int \<Rightarrow> AssignmentRow list \<Rightarrow> bool" where
  "roomsInOrder lo asg = (\<forall>i < length asg. parseInt (room (asg ! i)) = Some (lo + int i))"


definition hasChargeMarker :: "Table \<Rightarrow> bool" where
  "hasChargeMarker t = substringOf ''CHARGE NURSE'' (toUpperCase (textContent t))"

definition headerNotFound :: error where
  "headerNotFound = Error ''Assignment table header not found.''"

section \<open>Example documents\<close>

text \<open>
  A row built from the texts of its cells, and a table built from such rows. The document
  of \<^verbatim>\<open>DOMParser\<close> is not laid out, so the text of a row is the texts of its cells one after
  the other, and the text of a table that of its rows.
\<close>

definition rowOfCells :: "string list \<Rightarrow> Row" where
  "rowOfCells cs =
     \<lparr>rowInnerText = concat cs,
      cells = map (\<lambda>c. \<lparr>cellInnerText = c\<rparr>) cs,
      thtdCells = map (\<lambda>c. \<lparr>cellInnerText = c\<rparr>) cs\<rparr>"

definition tableOfCells :: "string list list \<Rightarrow> Table" where
  "tableOfCells rs = \<lparr>textContent = concat (concat rs), trRows = map rowOfCells rs\<rparr>"

definition exampleGrid :: "Row list" where
  "exampleGrid =
     [rowOfCells [''ROOM'', ''PATIENT'', ''RN DAYS''],
      rowOfCells [''505'', ''A. Poe'', ''#7502''],
      rowOfCells [''999'', ''X'', ''Y''],
      rowOfCells [''505'', ''B. Roe'', ''#7503'']]"

definition exampleDoc :: Document where
  "exampleDoc =
     \<lparr>tables =
        [tableOfCells [[''CHARGE NURSE: #7501'', ''7A-7P'']],
         tableOfCells [[''ROOM'', ''PATIENT'', ''RN DAYS''], [''512'', ''J. Doe'', ''#7502'']]],
      bodyInnerText = ''Friday, April 4th, 2025''\<rparr>"

text \<open>
  A document whose one body row has the room text \<^verbatim>\<open>505abc\<close>, and the room texts of the
  roster a parse returns (none when it throws).
\<close>

definition suffixDoc :: Document where
  "suffixDoc =
     \<lparr>tables =
        [tableOfCells [[''CHARGE NURSE: 7501 7A-7P'']],
         tableOfCells [[''ROOM'', ''PATIENT'', ''RN DAYS''], [''505abc'', ''J. Doe'', ''#7502'']]],
      bodyInnerText = ''2025-04-04''\<rparr>"

definition roomsOf :: "error + Roster \<Rightarrow> string list" where
  "roomsOf r = (case r of Inl e \<Rightarrow> [] | Inr roster \<Rightarrow> map room (assignments roster))"


definition noMarkerDoc :: Document where
  "noMarkerDoc =
     \<lparr>tables =
        [tableOfCells [[''ICU'', ''7A-7P'']],
         tableOfCells [[''ROOM'', ''PATIENT'', ''RN DAYS''], [''512'', ''J. Doe'', ''#7502'']]],
      bodyInnerText = ''2025-04-04''\<rparr>"

section \<open>Basic facts about the runtime functions\<close>

lemma lt10_cases: "(k::nat) < 10 \<Longrightarrow> k = 0 \<or> k = 1 \<or> k = 2 \<or> k = 3 \<or> k = 4 \<or> k = 5 \<or> k = 6 \<or> k = 7 \<or> k = 8 \<or> k = 9"
  by arith

lemma digitChar_props:
  assumes "k < 10"
  shows "isDigit (digitChar k)" and "digitVal (digitChar k) = k" and "\<not> isSpace (digitChar k)"
    and "digitChar k \<noteq> CHR ''-''" and "digitChar k \<noteq> CHR ''+''"
  using lt10_cases [OF assms]
  by (auto simp: isDigit_def digitChar_def digitChars_def digitVal_def isSpace_def)

lemma natToString_digits: "list_all isDigit (natToString n)"
proof (induction n rule: natToString.induct)
  case (1 n)
  show ?case
  proof (cases "n < 10")
    case True
    then show ?thesis by (subst natToString.simps) (simp add: digitChar_props)
  next
    case False
    then show ?thesis using 1 by (subst natToString.simps) (simp add: digitChar_props)
  qed
qed

lemma natToString_nonempty: "natToString n \<noteq> []"
  by (subst natToString.simps) simp

lemma digitsValue_snoc: "digitsValue (ds @ [c]) = 10 * digitsValue ds + digitVal c"
  by (simp add: digitsValue_def)

lemma digitsValue_natToString: "digitsValue (natToString n) = n"
proof (induction n rule: natToString.induct)
  case (1 n)
  show ?case
  proof (cases "n < 10")
    case True
    then show ?thesis by (subst natToString.simps) (simp add: digitChar_props digitsValue_def)
  next
    case False
    then have "digitsValue (natToString (n div 10)) = n div 10" using 1 by simp
    with False show ?thesis
      by (subst natToString.simps) (simp add: digitsValue_snoc digitChar_props)
  qed
qed

lemma parseDigits_natToString: "parseDigits (natToString n) = Some n"
proof -
  have tw: "takeWhile isDigit (natToString n) = natToString n"
    using natToString_digits [of n] by (simp add: list_all_iff)
  show ?thesis
    unfolding parseDigits_def tw
    by (simp add: natToString_nonempty digitsValue_natToString)
qed

lemma natToString_head:
  "\<exists>c cs. natToString n = c # cs \<and> isDigit c"
  using natToString_digits [of n] natToString_nonempty [of n]
  by (cases "natToString n") auto

lemma isDigit_not_special: "isDigit c \<Longrightarrow> \<not> isSpace c \<and> c \<noteq> CHR ''-'' \<and> c \<noteq> CHR ''+''"
  by (auto simp: isDigit_def digitChars_def isSpace_def)

lemma parseInt_natToString: "parseInt (natToString n) = Some (int n)"
proof -
  obtain c cs where eq: "natToString n = c # cs" and d: "isDigit c"
    using natToString_head by blast
  have "parseDigits (c # cs) = Some n" using parseDigits_natToString [of n] eq by simp
  then show ?thesis using eq d isDigit_not_special [OF d]
    by (simp add: parseInt_def)
qed

lemma parseInt_toString: "parseInt (toString i) = Some i"
proof (cases "i < 0")
  case True
  then show ?thesis
    by (simp add: toString_def parseInt_def isSpace_def parseDigits_natToString)
next
  case False
  then show ?thesis by (simp add: toString_def parseInt_natToString)
qed

lemma findIndexFrom_cases:
  "findIndexFrom p i xs = - 1 \<and> (\<forall>k < length xs. \<not> p (xs ! k) (i + int k))
   \<or> (\<exists>k < length xs. findIndexFrom p i xs = i + int k \<and> p (xs ! k) (i + int k)
         \<and> (\<forall>j < k. \<not> p (xs ! j) (i + int j)))"
proof (induction xs arbitrary: i)
  case Nil
  then show ?case by simp
next
  case (Cons x xs)
  show ?case
  proof (cases "p x i")
    case True
    then have "\<exists>k < length (x # xs). findIndexFrom p i (x # xs) = i + int k
        \<and> p ((x # xs) ! k) (i + int k) \<and> (\<forall>j < k. \<not> p ((x # xs) ! j) (i + int j))"
      by (intro exI [of _ 0]) simp
    then show ?thesis by blast
  next
    case False
    from Cons.IH [of "i + 1"] show ?thesis
    proof
      assume a: "findIndexFrom p (i + 1) xs = - 1 \<and> (\<forall>k<length xs. \<not> p (xs ! k) (i + 1 + int k))"
      have "\<forall>k<length (x # xs). \<not> p ((x # xs) ! k) (i + int k)"
      proof (intro allI impI)
        fix k assume "k < length (x # xs)"
        then show "\<not> p ((x # xs) ! k) (i + int k)"
          using a False by (cases k) (auto simp: algebra_simps)
      qed
      with a False show ?thesis by simp
    next
      assume "\<exists>k<length xs. findIndexFrom p (i + 1) xs = i + 1 + int k \<and> p (xs ! k) (i + 1 + int k)
         \<and> (\<forall>j<k. \<not> p (xs ! j) (i + 1 + int j))"
      then obtain k where k: "k < length xs" "findIndexFrom p (i + 1) xs = i + 1 + int k"
        "p (xs ! k) (i + 1 + int k)" "\<forall>j<k. \<not> p (xs ! j) (i + 1 + int j)" by blast
      have "\<forall>j<Suc k. \<not> p ((x # xs) ! j) (i + int j)"
      proof (intro allI impI)
        fix j assume "j < Suc k"
        then show "\<not> p ((x # xs) ! j) (i + int j)"
          using k(4) False by (cases j) (auto simp: algebra_simps)
      qed
      with k False have "Suc k < length (x # xs) \<and> findIndexFrom p i (x # xs) = i + int (Suc k)
        \<and> p ((x # xs) ! Suc k) (i + int (Suc k)) \<and> (\<forall>j<Suc k. \<not> p ((x # xs) ! j) (i + int j))"
        by (simp add: algebra_simps)
      then show ?thesis by blast
    qed
  qed
qed

lemma findIndex_cases:
  "findIndex p xs = - 1 \<and> (\<forall>k < length xs. \<not> p (xs ! k) (int k))
   \<or> (\<exists>k < length xs. findIndex p xs = int k \<and> p (xs ! k) (int k)
         \<and> (\<forall>j < k. \<not> p (xs ! j) (int j)))"
  using findIndexFrom_cases [of p 0 xs] by (simp add: findIndex_def)

lemma startsWith_iff: "startsWith s t \<longleftrightarrow> (\<exists>q. s = t @ q)"
  by (induction s t rule: startsWith.induct) auto

lemma includesStr_iff: "includesStr s t \<longleftrightarrow> substringOf t s"
proof (induction s)
  case Nil
  then show ?case by (simp add: substringOf_def)
next
  case (Cons c cs)
  have "substringOf t (c # cs) \<longleftrightarrow> (\<exists>q. c # cs = t @ q) \<or> substringOf t cs"
  proof
    assume "substringOf t (c # cs)"
    then obtain p q where pq: "c # cs = p @ t @ q" by (auto simp: substringOf_def)
    show "(\<exists>q. c # cs = t @ q) \<or> substringOf t cs"
    proof (cases p)
      case Nil
      with pq show ?thesis by auto
    next
      case (Cons a p')
      with pq have "cs = p' @ t @ q" by simp
      then show ?thesis by (auto simp: substringOf_def)
    qed
  next
    assume "(\<exists>q. c # cs = t @ q) \<or> substringOf t cs"
    then show "substringOf t (c # cs)"
    proof
      assume "\<exists>q. c # cs = t @ q"
      then obtain q where "c # cs = [] @ t @ q" by auto
      then show ?thesis unfolding substringOf_def by blast
    next
      assume "substringOf t cs"
      then obtain p q where "cs = p @ t @ q" by (auto simp: substringOf_def)
      then have "c # cs = (c # p) @ t @ q" by simp
      then show ?thesis unfolding substringOf_def by blast
    qed
  qed
  with Cons show ?case by (simp add: startsWith_iff)
qed

lemma autoMapLoop_lookup:
  "autoMapLoop hs keys m key =
     (if key \<in> set keys then Some (findIndex (\<lambda>h i. headerMatches key h) hs) else m key)"
  by (induction keys arbitrary: m) auto

lemma autoMapHeaders_lookup:
  "key \<in> set keys \<Longrightarrow> autoMapHeaders hs keys key = Some (findIndex (\<lambda>h i. headerMatches key h) hs)"
  by (simp add: autoMapHeaders_def autoMapLoop_lookup)

text \<open>
  Claim C7. For every list of header cell texts and every key of the key list,
  \<^verbatim>\<open>autoMapHeaders\<close> maps the key to the index of the first header cell whose text, without
  white space and in lower case, has the key (in lower case, without white space) as a
  substring, and to \<open>-1\<close> when no cell has it. A header cell \<^verbatim>\<open>RN Day's\<close> is found under
  the key \<^verbatim>\<open>rnday\<close>.
\<close>
theorem autoMapHeaders_first_match:
  "(\<forall>key \<in> set keys.
      (\<exists>i < length hs. autoMapHeaders hs keys key = Some (int i)
          \<and> substringOf (removeSpaces (toLowerCase key)) (toLowerCase (removeSpaces (hs ! i)))
          \<and> (\<forall>j < i. \<not> substringOf (removeSpaces (toLowerCase key)) (toLowerCase (removeSpaces (hs ! j)))))
      \<or> (autoMapHeaders hs keys key = Some (- 1)
          \<and> (\<forall>j < length hs. \<not> substringOf (removeSpaces (toLowerCase key)) (toLowerCase (removeSpaces (hs ! j))))))
   \<and> autoMapHeaders [''RN Day's''] gridKeys ''rnday'' = Some 0"
proof (intro conjI ballI)
  fix key assume key: "key \<in> set keys"
  let ?p = "\<lambda>h (i::int). headerMatches key h"
  have m: "\<And>h. headerMatches key h \<longleftrightarrow>
      substringOf (removeSpaces (toLowerCase key)) (toLowerCase (removeSpaces h))"
    by (simp add: headerMatches_def includesStr_iff)
  from findIndex_cases [of ?p hs] autoMapHeaders_lookup [OF key, of hs]
  show "(\<exists>i < length hs. autoMapHeaders hs keys key = Some (int i)
          \<and> substringOf (removeSpaces (toLowerCase key)) (toLowerCase (removeSpaces (hs ! i)))
          \<and> (\<forall>j < i. \<not> substringOf (removeSpaces (toLowerCase key)) (toLowerCase (removeSpaces (hs ! j)))))
      \<or> (autoMapHeaders hs keys key = Some (- 1)
          \<and> (\<forall>j < length hs. \<not> substringOf (removeSpaces (toLowerCase key)) (toLowerCase (removeSpaces (hs ! j)))))"
    unfolding m by auto
next
  show "autoMapHeaders [''RN Day's''] gridKeys ''rnday'' = Some 0"
    by (simp add: autoMapHeaders_def gridKeys_def findIndex_def headerMatches_def
        toLowerCase_def toLowerChar_def upperLetters_def lowerLetters_def removeSpaces_def isSpace_def)
qed

section \<open>The assignment loop\<close>

lemma placeRow_claims:
  "claimsRoom lo hi cm row rm \<Longrightarrow>
   placeRow lo hi cm asg row = asg[nat (rm - lo) := buildRow cm (cells row) (roomText cm row)]"
  by (simp add: claimsRoom_def placeRow_def roomText_def)

lemma placeRow_skip:
  "\<forall>rm. \<not> claimsRoom lo hi cm row rm \<Longrightarrow> placeRow lo hi cm asg row = asg"
  by (auto simp: claimsRoom_def placeRow_def roomText_def Let_def split: option.splits)

lemma placeRow_cases:
  "placeRow lo hi cm asg row = asg \<and> (\<forall>rm. \<not> claimsRoom lo hi cm row rm)
   \<or> (\<exists>rm. claimsRoom lo hi cm row rm
         \<and> placeRow lo hi cm asg row = asg[nat (rm - lo) := buildRow cm (cells row) (roomText cm row)])"
  using placeRow_claims placeRow_skip by blast

lemma length_placeRow: "length (placeRow lo hi cm asg row) = length asg"
  using placeRow_cases [of lo hi cm asg row] by auto

lemma length_assignmentLoop: "length (assignmentLoop lo hi cm asg rows) = length asg"
  by (induction rows arbitrary: asg) (simp_all add: length_placeRow)

lemma assignmentLoop_append:
  "assignmentLoop lo hi cm asg (xs @ ys) = assignmentLoop lo hi cm (assignmentLoop lo hi cm asg xs) ys"
  by (induction xs arbitrary: asg) simp_all

lemma claimsRoom_index:
  "claimsRoom lo hi cm row rm \<Longrightarrow> nat (rm - lo) = i \<Longrightarrow> rm = lo + int i"
  by (auto simp: claimsRoom_def)

lemma placeRow_other:
  assumes "\<not> claimsRoom lo hi cm row (lo + int i)"
  shows "placeRow lo hi cm asg row ! i = asg ! i"
proof -
  from placeRow_cases [of lo hi cm asg row] show ?thesis
  proof
    assume "placeRow lo hi cm asg row = asg \<and> (\<forall>rm. \<not> claimsRoom lo hi cm row rm)"
    then show ?thesis by simp
  next
    assume "\<exists>rm. claimsRoom lo hi cm row rm
         \<and> placeRow lo hi cm asg row = asg[nat (rm - lo) := buildRow cm (cells row) (roomText cm row)]"
    then obtain rm where c: "claimsRoom lo hi cm row rm"
      and e: "placeRow lo hi cm asg row = asg[nat (rm - lo) := buildRow cm (cells row) (roomText cm row)]"
      by blast
    have "nat (rm - lo) \<noteq> i" using claimsRoom_index [OF c] assms c by auto
    then show ?thesis using e by simp
  qed
qed

lemma assignmentLoop_unclaimed:
  "\<forall>row \<in> set rows. \<not> claimsRoom lo hi cm row (lo + int i) \<Longrightarrow>
   assignmentLoop lo hi cm asg rows ! i = asg ! i"
  by (induction rows arbitrary: asg) (simp_all add: placeRow_other)

lemma assignmentLoop_last_claim:
  assumes c: "claimsRoom lo hi cm later rm"
    and rest: "\<forall>row \<in> set after. \<not> claimsRoom lo hi cm row rm"
    and len: "nat (rm - lo) < length asg"
  shows "assignmentLoop lo hi cm asg (before @ later # after) ! nat (rm - lo)
         = buildRow cm (cells later) (roomText cm later)"
proof -
  let ?a = "assignmentLoop lo hi cm asg before"
  have rm: "rm = lo + int (nat (rm - lo))" using c by (simp add: claimsRoom_def)
  have "assignmentLoop lo hi cm asg (before @ later # after) ! nat (rm - lo)
      = assignmentLoop lo hi cm (placeRow lo hi cm ?a later) after ! nat (rm - lo)"
    by (simp add: assignmentLoop_append)
  also have "\<dots> = placeRow lo hi cm ?a later ! nat (rm - lo)"
    using rest rm by (intro assignmentLoop_unclaimed) simp
  also have "\<dots> = buildRow cm (cells later) (roomText cm later)"
    using len by (simp add: placeRow_claims [OF c] length_assignmentLoop)
  finally show ?thesis .
qed

lemma assignmentLoop_slot_source:
  assumes i: "i < length asg"
  shows "assignmentLoop lo hi cm asg rows ! i = asg ! i
         \<or> (\<exists>row \<in> set rows. claimsRoom lo hi cm row (lo + int i)
               \<and> assignmentLoop lo hi cm asg rows ! i = buildRow cm (cells row) (roomText cm row))"
proof (induction rows rule: rev_induct)
  case Nil
  then show ?case by simp
next
  case (snoc x xs)
  let ?a = "assignmentLoop lo hi cm asg xs"
  have step: "assignmentLoop lo hi cm asg (xs @ [x]) = placeRow lo hi cm ?a x"
    by (simp add: assignmentLoop_append)
  have keep: ?case if "placeRow lo hi cm ?a x ! i = ?a ! i"
    using snoc.IH that unfolding step by auto
  from placeRow_cases [of lo hi cm ?a x] show ?case
  proof
    assume "placeRow lo hi cm ?a x = ?a \<and> (\<forall>rm. \<not> claimsRoom lo hi cm x rm)"
    then show ?thesis using keep by simp
  next
    assume "\<exists>rm. claimsRoom lo hi cm x rm
         \<and> placeRow lo hi cm ?a x = ?a[nat (rm - lo) := buildRow cm (cells x) (roomText cm x)]"
    then obtain rm where c: "claimsRoom lo hi cm x rm"
      and e: "placeRow lo hi cm ?a x = ?a[nat (rm - lo) := buildRow cm (cells x) (roomText cm x)]"
      by blast
    show ?thesis
    proof (cases "nat (rm - lo) = i")
      case True
      have "rm = lo + int i" by (rule claimsRoom_index [OF c True])
      then have "claimsRoom lo hi cm x (lo + int i)" using c by simp
      moreover have "placeRow lo hi cm ?a x ! i = buildRow cm (cells x) (roomText cm x)"
        using True i by (simp add: e length_assignmentLoop)
      ultimately show ?thesis unfolding step by auto
    next
      case False
      then have "placeRow lo hi cm ?a x ! i = ?a ! i" by (simp add: e)
      then show ?thesis by (rule keep)
    qed
  qed
qed

lemma claimsRoom_unique: "claimsRoom lo hi cm row rm \<Longrightarrow> claimsRoom lo hi cm row rm' \<Longrightarrow> rm = rm'"
  by (simp add: claimsRoom_def)

lemma assignmentLoop_overwritten:
  assumes c: "claimsRoom lo hi cm later rm"
  shows "assignmentLoop lo hi cm (asg[nat (rm - lo) := e]) (mid @ [later])
         = assignmentLoop lo hi cm asg (mid @ [later])"
proof (induction mid arbitrary: asg)
  case Nil
  show ?case by (simp add: placeRow_claims [OF c])
next
  case (Cons m mid)
  from placeRow_cases [of lo hi cm asg m] show ?case
  proof
    assume s: "placeRow lo hi cm asg m = asg \<and> (\<forall>rm. \<not> claimsRoom lo hi cm m rm)"
    then have "placeRow lo hi cm (asg[nat (rm - lo) := e]) m = asg[nat (rm - lo) := e]"
      by (simp add: placeRow_skip)
    with s Cons.IH show ?thesis by simp
  next
    assume "\<exists>r. claimsRoom lo hi cm m r
      \<and> placeRow lo hi cm asg m = asg[nat (r - lo) := buildRow cm (cells m) (roomText cm m)]"
    then obtain r where cr: "claimsRoom lo hi cm m r" by blast
    let ?b = "buildRow cm (cells m) (roomText cm m)"
    have p1: "placeRow lo hi cm asg m = asg[nat (r - lo) := ?b]" by (rule placeRow_claims [OF cr])
    have p2: "placeRow lo hi cm (asg[nat (rm - lo) := e]) m = asg[nat (rm - lo) := e, nat (r - lo) := ?b]"
      by (rule placeRow_claims [OF cr])
    show ?thesis
    proof (cases "nat (r - lo) = nat (rm - lo)")
      case True
      then show ?thesis using p1 p2 by simp
    next
      case False
      then have "asg[nat (rm - lo) := e, nat (r - lo) := ?b] = asg[nat (r - lo) := ?b, nat (rm - lo) := e]"
        by (simp add: list_update_swap)
      then show ?thesis using p1 p2 Cons.IH by simp
    qed
  qed
qed

lemma assignmentLoop_no_trace:
  assumes e: "claimsRoom lo hi cm earlier rm" and l: "claimsRoom lo hi cm later rm"
  shows "assignmentLoop lo hi cm asg (before @ earlier # mid @ later # after)
         = assignmentLoop lo hi cm asg (before @ mid @ later # after)"
proof -
  let ?a = "assignmentLoop lo hi cm asg before"
  have "assignmentLoop lo hi cm (placeRow lo hi cm ?a earlier) (mid @ [later])
      = assignmentLoop lo hi cm ?a (mid @ [later])"
    unfolding placeRow_claims [OF e] by (rule assignmentLoop_overwritten [OF l])
  then have "assignmentLoop lo hi cm ?a (earlier # mid @ [later]) = assignmentLoop lo hi cm ?a (mid @ [later])"
    by simp
  then have "assignmentLoop lo hi cm ?a ((earlier # mid @ [later]) @ after)
      = assignmentLoop lo hi cm ?a ((mid @ [later]) @ after)"
    by (simp only: assignmentLoop_append)
  then show ?thesis by (simp add: assignmentLoop_append)
qed

lemma roomsInOrder_initial: "roomsInOrder lo (initialAssignments lo hi)"
  by (simp add: roomsInOrder_def initialAssignments_def defaultRow_def parseInt_toString)

lemma roomsInOrder_placeRow:
  assumes "roomsInOrder lo asg"
  shows "roomsInOrder lo (placeRow lo hi cm asg row)"
proof -
  from placeRow_cases [of lo hi cm asg row] show ?thesis
  proof
    assume "placeRow lo hi cm asg row = asg \<and> (\<forall>rm. \<not> claimsRoom lo hi cm row rm)"
    with assms show ?thesis by simp
  next
    assume "\<exists>rm. claimsRoom lo hi cm row rm
         \<and> placeRow lo hi cm asg row = asg[nat (rm - lo) := buildRow cm (cells row) (roomText cm row)]"
    then obtain rm where c: "claimsRoom lo hi cm row rm"
      and e: "placeRow lo hi cm asg row = asg[nat (rm - lo) := buildRow cm (cells row) (roomText cm row)]"
      by blast
    show ?thesis unfolding roomsInOrder_def e
    proof (intro allI impI)
      fix i assume i: "i < length (asg[nat (rm - lo) := buildRow cm (cells row) (roomText cm row)])"
      show "parseInt (room (asg[nat (rm - lo) := buildRow cm (cells row) (roomText cm row)] ! i)) = Some (lo + int i)"
      proof (cases "i = nat (rm - lo)")
        case True
        then show ?thesis using i c by (simp add: buildRow_def claimsRoom_def)
      next
        case False
        then show ?thesis using i assms by (simp add: roomsInOrder_def)
      qed
    qed
  qed
qed

lemma roomsInOrder_loop:
  "roomsInOrder lo asg \<Longrightarrow> roomsInOrder lo (assignmentLoop lo hi cm asg rows)"
  by (induction rows arbitrary: asg) (simp_all add: roomsInOrder_placeRow)

lemma length_initialAssignments: "length (initialAssignments lo hi) = nat (hi - lo + 1)"
  by (simp add: initialAssignments_def)

lemma nth_initialAssignments:
  "i < nat (hi - lo + 1) \<Longrightarrow> initialAssignments lo hi ! i = defaultRow (lo + int i)"
  by (simp add: initialAssignments_def)

lemma parse_grid_Inr:
  "parseAssignmentsAndBottomSection rows lo hi = Inr g \<Longrightarrow>
   gAssignments g = assignmentLoop lo hi (gridColMap rows) (initialAssignments lo hi) (gridBody rows)"
  by (auto simp: parseAssignmentsAndBottomSection_def Let_def split: if_splits)

lemma parse_grid_slots:
  assumes "parseAssignmentsAndBottomSection rows lo hi = Inr g"
  shows "length (gAssignments g) = nat (hi - lo + 1)"
    and "\<forall>i < length (gAssignments g). parseInt (room (gAssignments g ! i)) = Some (lo + int i)"
    and "\<forall>i < length (gAssignments g).
           (\<forall>row \<in> set (gridBody rows). \<not> claimsRoom lo hi (gridColMap rows) row (lo + int i))
           \<longrightarrow> gAssignments g ! i = defaultRow (lo + int i)"
    and "\<forall>i < length (gAssignments g).
           gAssignments g ! i = defaultRow (lo + int i)
           \<or> (\<exists>row \<in> set (gridBody rows). claimsRoom lo hi (gridColMap rows) row (lo + int i)
                 \<and> gAssignments g ! i
                     = buildRow (gridColMap rows) (cells row) (roomText (gridColMap rows) row))"
proof -
  note eq = parse_grid_Inr [OF assms]
  show len: "length (gAssignments g) = nat (hi - lo + 1)"
    by (simp add: eq length_assignmentLoop length_initialAssignments)
  show "\<forall>i < length (gAssignments g). parseInt (room (gAssignments g ! i)) = Some (lo + int i)"
    using roomsInOrder_loop [OF roomsInOrder_initial [of lo hi], of hi "gridColMap rows" "gridBody rows"]
    by (simp add: eq roomsInOrder_def)
  show "\<forall>i < length (gAssignments g).
           (\<forall>row \<in> set (gridBody rows). \<not> claimsRoom lo hi (gridColMap rows) row (lo + int i))
           \<longrightarrow> gAssignments g ! i = defaultRow (lo + int i)"
  proof (intro allI impI)
    fix i assume i: "i < length (gAssignments g)"
      and u: "\<forall>row \<in> set (gridBody rows). \<not> claimsRoom lo hi (gridColMap rows) row (lo + int i)"
    have "gAssignments g ! i = initialAssignments lo hi ! i"
      unfolding eq by (rule assignmentLoop_unclaimed [OF u])
    also have "\<dots> = defaultRow (lo + int i)"
      using i len by (simp add: nth_initialAssignments)
    finally show "gAssignments g ! i = defaultRow (lo + int i)" .
  qed
  show "\<forall>i < length (gAssignments g).
           gAssignments g ! i = defaultRow (lo + int i)
           \<or> (\<exists>row \<in> set (gridBody rows). claimsRoom lo hi (gridColMap rows) row (lo + int i)
                 \<and> gAssignments g ! i
                     = buildRow (gridColMap rows) (cells row) (roomText (gridColMap rows) row))"
  proof (intro allI impI)
    fix i assume i: "i < length (gAssignments g)"
    then have i': "i < length (initialAssignments lo hi)"
      using len by (simp add: length_initialAssignments)
    then have d: "initialAssignments lo hi ! i = defaultRow (lo + int i)"
      by (simp add: length_initialAssignments nth_initialAssignments)
    from assignmentLoop_slot_source [OF i', of lo hi "gridColMap rows" "gridBody rows"]
    show "gAssignments g ! i = defaultRow (lo + int i)
           \<or> (\<exists>row \<in> set (gridBody rows). claimsRoom lo hi (gridColMap rows) row (lo + int i)
                 \<and> gAssignments g ! i
                     = buildRow (gridColMap rows) (cells row) (roomText (gridColMap rows) row))"
      unfolding eq d by blast
  qed
qed

lemma parseRoster_Inr_grid:
  "parseRosterFromHtml rt doc = Inr roster \<Longrightarrow>
   \<exists>g. parseAssignmentsAndBottomSection (contentRows (tables doc)) 501 532 = Inr g
        \<and> assignments roster = gAssignments g"
  by (auto simp: parseRosterFromHtml_def Let_def split: sum.splits option.splits)

text \<open>
  Claim C1, as amended. Whenever the grid parser returns, for any room range, the
  assignments have \<open>endRoom - startRoom + 1\<close> entries (none when that is not positive), and
  the room text of slot \<open>i\<close> reads (\<^verbatim>\<open>parseInt\<close>) as room \<open>startRoom + i\<close>, so the slots are
  in ascending room order. A slot is the default row (the room number as text, every other
  field empty) or the row built from a body row that claims its room; its room text is then
  the trimmed text of that row's room cell, which may go on after the digits. A slot that no
  body row claims is the default row. The entry point uses the range 501 to 532 and returns
  32 such slots.
\<close>
theorem assignments_one_per_room:
  "(parseAssignmentsAndBottomSection rows lo hi = Inr g \<longrightarrow>
      length (gAssignments g) = nat (hi - lo + 1)
      \<and> (lo \<le> hi \<longrightarrow> int (length (gAssignments g)) = hi - lo + 1)
      \<and> (\<forall>i < length (gAssignments g).
            parseInt (room (gAssignments g ! i)) = Some (lo + int i)
            \<and> (gAssignments g ! i = defaultRow (lo + int i)
                \<or> (\<exists>row \<in> set (gridBody rows). claimsRoom lo hi (gridColMap rows) row (lo + int i)
                      \<and> gAssignments g ! i
                          = buildRow (gridColMap rows) (cells row) (roomText (gridColMap rows) row)))
            \<and> ((\<forall>row \<in> set (gridBody rows). \<not> claimsRoom lo hi (gridColMap rows) row (lo + int i))
                 \<longrightarrow> gAssignments g ! i = defaultRow (lo + int i))))
   \<and> (parseRosterFromHtml rt doc = Inr roster \<longrightarrow>
        length (assignments roster) = 32
        \<and> (\<forall>i < 32.
              parseInt (room (assignments roster ! i)) = Some (501 + int i)
              \<and> (assignments roster ! i = defaultRow (501 + int i)
                  \<or> (\<exists>row \<in> set (gridBody (contentRows (tables doc))).
                        claimsRoom 501 532 (gridColMap (contentRows (tables doc))) row (501 + int i)
                        \<and> assignments roster ! i
                            = buildRow (gridColMap (contentRows (tables doc))) (cells row)
                                (roomText (gridColMap (contentRows (tables doc))) row)))
              \<and> ((\<forall>row \<in> set (gridBody (contentRows (tables doc))).
                     \<not> claimsRoom 501 532 (gridColMap (contentRows (tables doc))) row (501 + int i))
                   \<longrightarrow> assignments roster ! i = defaultRow (501 + int i))))"
proof (intro conjI impI)
  assume a: "parseAssignmentsAndBottomSection rows lo hi = Inr g"
  show "length (gAssignments g) = nat (hi - lo + 1)" by (rule parse_grid_slots(1) [OF a])
  then show "int (length (gAssignments g)) = hi - lo + 1" if "lo \<le> hi" using that by simp
  show "\<forall>i < length (gAssignments g).
            parseInt (room (gAssignments g ! i)) = Some (lo + int i)
            \<and> (gAssignments g ! i = defaultRow (lo + int i)
                \<or> (\<exists>row \<in> set (gridBody rows). claimsRoom lo hi (gridColMap rows) row (lo + int i)
                      \<and> gAssignments g ! i
                          = buildRow (gridColMap rows) (cells row) (roomText (gridColMap rows) row)))
            \<and> ((\<forall>row \<in> set (gridBody rows). \<not> claimsRoom lo hi (gridColMap rows) row (lo + int i))
                 \<longrightarrow> gAssignments g ! i = defaultRow (lo + int i))"
    using parse_grid_slots(2,3,4) [OF a] by blast
next
  assume "parseRosterFromHtml rt doc = Inr roster"
  from parseRoster_Inr_grid [OF this] obtain g
    where g: "parseAssignmentsAndBottomSection (contentRows (tables doc)) 501 532 = Inr g"
      and eq: "assignments roster = gAssignments g" by blast
  show len: "length (assignments roster) = 32" using parse_grid_slots(1) [OF g] eq by simp
  have l: "length (gAssignments g) = 32" using len eq by simp
  show "\<forall>i < 32.
      parseInt (room (assignments roster ! i)) = Some (501 + int i)
      \<and> (assignments roster ! i = defaultRow (501 + int i)
          \<or> (\<exists>row \<in> set (gridBody (contentRows (tables doc))).
                claimsRoom 501 532 (gridColMap (contentRows (tables doc))) row (501 + int i)
                \<and> assignments roster ! i
                    = buildRow (gridColMap (contentRows (tables doc))) (cells row)
                        (roomText (gridColMap (contentRows (tables doc))) row)))
      \<and> ((\<forall>row \<in> set (gridBody (contentRows (tables doc))).
             \<not> claimsRoom 501 532 (gridColMap (contentRows (tables doc))) row (501 + int i))
           \<longrightarrow> assignments roster ! i = defaultRow (501 + int i))"
    using parse_grid_slots(2,3,4) [OF g] unfolding eq l by blast
qed

text \<open>
  Claim C8. When two body rows claim the same room of the range, and no row after the later
  one claims it, the slot of that room is the row built from the later one, and the whole
  result is the one the grid gives without the earlier row: last write wins and the
  earlier row leaves no trace.
\<close>
theorem duplicate_room_last_write_wins:
  assumes "parseAssignmentsAndBottomSection rows lo hi = Inr g"
    and "gridBody rows = before @ earlier # mid @ later # after"
    and "claimsRoom lo hi (gridColMap rows) earlier rm"
    and "claimsRoom lo hi (gridColMap rows) later rm"
    and "\<forall>row \<in> set after. \<not> claimsRoom lo hi (gridColMap rows) row rm"
  shows "gAssignments g ! nat (rm - lo)
           = buildRow (gridColMap rows) (cells later) (roomText (gridColMap rows) later)
         \<and> gAssignments g
           = assignmentLoop lo hi (gridColMap rows) (initialAssignments lo hi) (before @ mid @ later # after)"
proof -
  note eq = parse_grid_Inr [OF assms(1)]
  have len: "nat (rm - lo) < length (initialAssignments lo hi)"
    using assms(4) by (auto simp: claimsRoom_def length_initialAssignments)
  have "gAssignments g ! nat (rm - lo)
      = buildRow (gridColMap rows) (cells later) (roomText (gridColMap rows) later)"
    unfolding eq assms(2)
    using assignmentLoop_last_claim [OF assms(4) assms(5) len, of "before @ earlier # mid"]
    by simp
  moreover have "gAssignments g
      = assignmentLoop lo hi (gridColMap rows) (initialAssignments lo hi) (before @ mid @ later # after)"
    unfolding eq assms(2) by (rule assignmentLoop_no_trace [OF assms(3) assms(4)])
  ultimately show ?thesis by blast
qed

lemma assignmentLoop_all_skipped:
  "\<forall>row \<in> set rows. \<forall>rm. \<not> claimsRoom lo hi cm row rm \<Longrightarrow> assignmentLoop lo hi cm asg rows = asg"
  by (induction rows arbitrary: asg) (simp_all add: placeRow_skip)

lemma getCellText_sentinel: "cm key = Some (- 1) \<Longrightarrow> getCellText (cellOf cm cs key) = []"
  by (simp add: cellOf_def elemAt_def getCellText_def)

text \<open>
  Claim C9. A body row whose room cell does not read as an integer, or reads as one outside
  the room range, leaves every slot as it was, in one turn of the loop and over a whole
  body of such rows; a column mapped to the sentinel \<open>-1\<close> reads as the empty text. The
  loop is a total function on all rows, so no row makes it throw. The room texts \<^verbatim>\<open>999\<close>,
  \<^verbatim>\<open>abc\<close> and the empty text read as 999, as no number and as no number.
\<close>
theorem malformed_rows_are_skipped:
  "((parseInt (roomText cm row) = None
       \<or> (\<exists>rm. parseInt (roomText cm row) = Some rm \<and> (rm < lo \<or> hi < rm)))
      \<longrightarrow> placeRow lo hi cm asg row = asg)
   \<and> ((\<forall>row \<in> set rows. parseInt (roomText cm row) = None
          \<or> (\<exists>rm. parseInt (roomText cm row) = Some rm \<and> (rm < lo \<or> hi < rm)))
      \<longrightarrow> assignmentLoop lo hi cm asg rows = asg)
   \<and> (cm key = Some (- 1) \<longrightarrow> getCellText (cellOf cm cs key) = [])
   \<and> parseInt ''999'' = Some 999 \<and> parseInt ''abc'' = None \<and> parseInt [] = None"
proof (intro conjI impI)
  assume "parseInt (roomText cm row) = None
       \<or> (\<exists>rm. parseInt (roomText cm row) = Some rm \<and> (rm < lo \<or> hi < rm))"
  then have "\<forall>rm. \<not> claimsRoom lo hi cm row rm" by (auto simp: claimsRoom_def)
  then show "placeRow lo hi cm asg row = asg" by (rule placeRow_skip)
next
  assume "\<forall>row \<in> set rows. parseInt (roomText cm row) = None
          \<or> (\<exists>rm. parseInt (roomText cm row) = Some rm \<and> (rm < lo \<or> hi < rm))"
  then have "\<forall>row \<in> set rows. \<forall>rm. \<not> claimsRoom lo hi cm row rm" by (auto simp: claimsRoom_def)
  then show "assignmentLoop lo hi cm asg rows = asg" by (rule assignmentLoop_all_skipped)
next
  assume "cm key = Some (- 1)"
  then show "getCellText (cellOf cm cs key) = []" by (rule getCellText_sentinel)
next
  show "parseInt ''999'' = Some 999"
    by (simp add: parseInt_def isSpace_def parseDigits_def isDigit_def digitChars_def
        digitsValue_def digitVal_def)
  show "parseInt ''abc'' = None"
    by (simp add: parseInt_def isSpace_def parseDigits_def isDigit_def digitChars_def)
  show "parseInt [] = None" by (simp add: parseInt_def)
qed

section \<open>The entry point and its one error\<close>


lemma isInfoTable_iff: "isInfoTable t \<longleftrightarrow> hasChargeMarker t"
  by (simp add: isInfoTable_def hasChargeMarker_def includesStr_iff)



lemma infoTableIdx_Nil: "infoTableIdx [] = None"
  by (simp add: infoTableIdx_def findIndex_def)

lemma contentRows_Nil: "contentRows [] = []"
  by (simp add: contentRows_def)

lemma infoTableIdx_cases:
  assumes "ts \<noteq> []"
  shows "\<exists>k < length ts. infoTableIdx ts = Some (int k)
           \<and> (hasChargeMarker (ts ! k) \<and> (\<forall>j < k. \<not> hasChargeMarker (ts ! j))
               \<or> k = 0 \<and> (\<forall>j < length ts. \<not> hasChargeMarker (ts ! j)))"
proof -
  from findIndex_cases [of "\<lambda>t i. isInfoTable t" ts] show ?thesis
  proof
    assume a: "findIndex (\<lambda>t i. isInfoTable t) ts = - 1 \<and> (\<forall>k<length ts. \<not> isInfoTable (ts ! k))"
    then have "infoTableIdx ts = Some (int 0)" using assms by (simp add: infoTableIdx_def)
    with a assms have "0 < length ts \<and> infoTableIdx ts = Some (int 0)
        \<and> (0 = (0::nat) \<and> (\<forall>j < length ts. \<not> hasChargeMarker (ts ! j)))"
      by (simp add: isInfoTable_iff)
    then show ?thesis by blast
  next
    assume "\<exists>k<length ts. findIndex (\<lambda>t i. isInfoTable t) ts = int k \<and> isInfoTable (ts ! k)
        \<and> (\<forall>j<k. \<not> isInfoTable (ts ! j))"
    then obtain k where k: "k < length ts" "findIndex (\<lambda>t i. isInfoTable t) ts = int k"
      "isInfoTable (ts ! k)" "\<forall>j<k. \<not> isInfoTable (ts ! j)" by blast
    then have "infoTableIdx ts = Some (int k)" by (simp add: infoTableIdx_def)
    with k show ?thesis by (auto simp: isInfoTable_iff)
  qed
qed

lemma parseGrid_error_iff:
  "(\<exists>g. parseAssignmentsAndBottomSection rows lo hi = Inr g) \<longleftrightarrow> headerRowIdx rows \<noteq> - 1"
  by (simp add: parseAssignmentsAndBottomSection_def Let_def)

lemma parseGrid_header_missing:
  "headerRowIdx rows = - 1 \<Longrightarrow> parseAssignmentsAndBottomSection rows lo hi = Inl headerNotFound"
  by (simp add: parseAssignmentsAndBottomSection_def headerNotFound_def)

lemma parseRoster_header_missing:
  "headerRowIdx (contentRows (tables doc)) = - 1 \<Longrightarrow> parseRosterFromHtml rt doc = Inl headerNotFound"
  by (simp add: parseRosterFromHtml_def parseGrid_header_missing)

lemma parseRoster_header_found:
  assumes "headerRowIdx (contentRows (tables doc)) \<noteq> - 1"
  shows "\<exists>roster k. parseRosterFromHtml rt doc = Inr roster \<and> infoTableIdx (tables doc) = Some k
           \<and> chargeNurses roster = infoChargeNurses (parseInfoTable rt (tables doc ! nat k))
           \<and> pctsDay roster = orEmpty (infoPctsDay (parseInfoTable rt (tables doc ! nat k)))
           \<and> pctsNight roster = orEmpty (infoPctsNight (parseInfoTable rt (tables doc ! nat k)))"
proof -
  have "tables doc \<noteq> []"
  proof
    assume "tables doc = []"
    then have "headerRowIdx (contentRows (tables doc)) = - 1"
      by (simp add: contentRows_Nil headerRowIdx_def findIndex_def)
    with assms show False by simp
  qed
  from infoTableIdx_cases [OF this] obtain k where k: "infoTableIdx (tables doc) = Some (int k)"
    by blast
  from assms obtain g where g: "parseAssignmentsAndBottomSection (contentRows (tables doc)) 501 532 = Inr g"
    using parseGrid_error_iff by blast
  show ?thesis using k g by (simp add: parseRosterFromHtml_def Let_def)
qed

lemma parseRoster_Inl:
  "parseRosterFromHtml rt doc = Inl e \<Longrightarrow>
   e = headerNotFound \<and> headerRowIdx (contentRows (tables doc)) = - 1"
  using parseRoster_header_found [of doc rt] parseRoster_header_missing [of doc rt]
  by (cases "headerRowIdx (contentRows (tables doc)) = - 1") auto


text \<open>
  Claim C5. In a document with at least one table, the information table is the first table
  whose text has the marker \<^verbatim>\<open>CHARGE NURSE\<close>, and the first table of the document when no
  table has it; the roster's charge nurses and PCT texts come from that table. Nothing is
  thrown for a missing marker: the only error of the parse is the missing grid header, and
  with a grid header a roster is returned.
\<close>
theorem info_table_selection:
  "tables doc \<noteq> [] \<longrightarrow>
     (\<exists>k < length (tables doc).
         infoTableIdx (tables doc) = Some (int k)
         \<and> (hasChargeMarker (tables doc ! k) \<and> (\<forall>j < k. \<not> hasChargeMarker (tables doc ! j))
             \<or> k = 0 \<and> (\<forall>j < length (tables doc). \<not> hasChargeMarker (tables doc ! j)))
         \<and> (\<forall>roster. parseRosterFromHtml rt doc = Inr roster \<longrightarrow>
               chargeNurses roster = infoChargeNurses (parseInfoTable rt (tables doc ! k))
               \<and> pctsDay roster = orEmpty (infoPctsDay (parseInfoTable rt (tables doc ! k)))
               \<and> pctsNight roster = orEmpty (infoPctsNight (parseInfoTable rt (tables doc ! k)))))
     \<and> (\<forall>e. parseRosterFromHtml rt doc = Inl e \<longrightarrow>
           e = Error ''Assignment table header not found.''
           \<and> headerRowIdx (contentRows (tables doc)) = - 1)
     \<and> (headerRowIdx (contentRows (tables doc)) \<noteq> - 1 \<longrightarrow>
           (\<exists>roster. parseRosterFromHtml rt doc = Inr roster))"
proof (intro impI conjI allI)
  assume ne: "tables doc \<noteq> []"
  from infoTableIdx_cases [OF ne] obtain k where k: "k < length (tables doc)"
    "infoTableIdx (tables doc) = Some (int k)"
    "hasChargeMarker (tables doc ! k) \<and> (\<forall>j < k. \<not> hasChargeMarker (tables doc ! j))
      \<or> k = 0 \<and> (\<forall>j < length (tables doc). \<not> hasChargeMarker (tables doc ! j))" by blast
  have "\<forall>roster. parseRosterFromHtml rt doc = Inr roster \<longrightarrow>
               chargeNurses roster = infoChargeNurses (parseInfoTable rt (tables doc ! k))
               \<and> pctsDay roster = orEmpty (infoPctsDay (parseInfoTable rt (tables doc ! k)))
               \<and> pctsNight roster = orEmpty (infoPctsNight (parseInfoTable rt (tables doc ! k)))"
  proof (intro allI impI)
    fix roster assume r: "parseRosterFromHtml rt doc = Inr roster"
    then have "headerRowIdx (contentRows (tables doc)) \<noteq> - 1"
      using parseRoster_header_missing [of doc rt] by auto
    from parseRoster_header_found [OF this, of rt] r k(2)
    show "chargeNurses roster = infoChargeNurses (parseInfoTable rt (tables doc ! k))
               \<and> pctsDay roster = orEmpty (infoPctsDay (parseInfoTable rt (tables doc ! k)))
               \<and> pctsNight roster = orEmpty (infoPctsNight (parseInfoTable rt (tables doc ! k)))"
      by auto
  qed
  with k show "\<exists>k < length (tables doc).
         infoTableIdx (tables doc) = Some (int k)
         \<and> (hasChargeMarker (tables doc ! k) \<and> (\<forall>j < k. \<not> hasChargeMarker (tables doc ! j))
             \<or> k = 0 \<and> (\<forall>j < length (tables doc). \<not> hasChargeMarker (tables doc ! j)))
         \<and> (\<forall>roster. parseRosterFromHtml rt doc = Inr roster \<longrightarrow>
               chargeNurses roster = infoChargeNurses (parseInfoTable rt (tables doc ! k))
               \<and> pctsDay roster = orEmpty (infoPctsDay (parseInfoTable rt (tables doc ! k)))
               \<and> pctsNight roster = orEmpty (infoPctsNight (parseInfoTable rt (tables doc ! k))))"
    by blast
next
  fix e assume "parseRosterFromHtml rt doc = Inl e"
  from parseRoster_Inl [OF this]
  show "e = Error ''Assignment table header not found.''"
    and "headerRowIdx (contentRows (tables doc)) = - 1"
    by (simp_all add: headerNotFound_def)
next
  assume "headerRowIdx (contentRows (tables doc)) \<noteq> - 1"
  from parseRoster_header_found [OF this] show "\<exists>roster. parseRosterFromHtml rt doc = Inr roster"
    by blast
qed

text \<open>
  Claim C10. For a document without tables the content rows are empty, the information
  table is \<^verbatim>\<open>undefined\<close>, and \<^verbatim>\<open>parseRosterFromHtml\<close> throws the error of the missing grid
  header: that error comes before the information table is read.
\<close>
theorem no_tables_no_roster:
  "contentRows (tables \<lparr>tables = [], bodyInnerText = body\<rparr>) = []
   \<and> infoTableIdx (tables \<lparr>tables = [], bodyInnerText = body\<rparr>) = None
   \<and> parseRosterFromHtml rt \<lparr>tables = [], bodyInnerText = body\<rparr>
       = Inl (Error ''Assignment table header not found.'')"
  using parseRoster_header_missing [of "\<lparr>tables = [], bodyInnerText = body\<rparr>" rt]
  by (simp add: contentRows_Nil infoTableIdx_Nil headerRowIdx_def findIndex_def headerNotFound_def)

lemma parseRoster_info_part:
  assumes "headerRowIdx (contentRows (tables doc)) \<noteq> - 1" and "infoTableIdx (tables doc) = Some k"
  shows "\<exists>roster. parseRosterFromHtml rt doc = Inr roster
           \<and> chargeNurses roster = infoChargeNurses (parseInfoTable rt (tables doc ! nat k))"
  using parseRoster_header_found [OF assms(1), of rt] assms(2) by auto


section \<open>The calendar and the date text\<close>








lemma natToString_length: "0 < k \<Longrightarrow> n < 10 ^ k \<Longrightarrow> length (natToString n) \<le> k"
proof (induction n arbitrary: k rule: natToString.induct)
  case (1 n)
  show ?case
  proof (cases "n < 10")
    case True
    then show ?thesis using "1.prems" by (subst natToString.simps) simp
  next
    case False
    obtain j where k: "k = Suc j" using "1.prems"(1) by (cases k) auto
    have "j \<noteq> 0" using False "1.prems"(2) k by (intro notI) simp
    then have j: "0 < j" by simp
    have "n div 10 < 10 ^ j" using "1.prems"(2) k by (simp add: less_mult_imp_div_less)
    from "1.IH" [OF False j this] show ?thesis using False k
      by (subst natToString.simps) simp
  qed
qed

lemma digitVal_zero: "digitVal (CHR ''0'') = 0"
  by (simp add: digitVal_def)

lemma isDigit_zero: "isDigit (CHR ''0'')"
  by (simp add: isDigit_def digitChars_def)

lemma digitsValue_zeros: "digitsValue (replicate j (CHR ''0'') @ s) = digitsValue s"
proof -
  have "foldl (\<lambda>acc c. 10 * acc + digitVal c) 0 (replicate j (CHR ''0'')) = 0"
    by (induction j) (simp_all add: digitVal_zero)
  then show ?thesis by (simp add: digitsValue_def)
qed

lemma padStart_props:
  assumes "0 < w" "n < 10 ^ w"
  shows "length (padStart w n) = w" "list_all isDigit (padStart w n)" "digitsValue (padStart w n) = n"
proof -
  have l: "length (natToString n) \<le> w" using assms by (rule natToString_length)
  show "length (padStart w n) = w" using l by (simp add: padStart_def)
  show "list_all isDigit (padStart w n)"
    using natToString_digits [of n] by (auto simp: padStart_def list_all_iff isDigit_zero)
  show "digitsValue (padStart w n) = n"
    by (simp add: padStart_def digitsValue_zeros digitsValue_natToString)
qed

lemma isDigit_not_T: "isDigit c \<Longrightarrow> c \<noteq> CHR ''T''"
  by (auto simp: isDigit_def digitChars_def)

lemma isoDate_parts:
  assumes "civilFromDays (t div 86400000) = (y, m, d)"
    and "0 \<le> y" "y \<le> 9999" "1 \<le> m" "m \<le> 12" "1 \<le> d" "d \<le> 31"
  shows "isoDate t = padStart 4 (nat y) @ ''-'' @ padStart 2 (nat m) @ ''-'' @ padStart 2 (nat d)"
proof -
  let ?a = "padStart 4 (nat y) @ ''-'' @ padStart 2 (nat m) @ ''-'' @ padStart 2 (nat d)"
  have py: "list_all isDigit (padStart 4 (nat y))" using assms by (intro padStart_props) simp_all
  have pm: "list_all isDigit (padStart 2 (nat m))" using assms by (intro padStart_props) simp_all
  have pd: "list_all isDigit (padStart 2 (nat d))" using assms by (intro padStart_props) simp_all
  have noT: "\<forall>c \<in> set ?a. c \<noteq> CHR ''T''"
    using py pm pd isDigit_not_T by (auto simp: list_all_iff)
  obtain rest where r: "toISOString t = ?a @ CHR ''T'' # rest"
    using assms by (simp add: toISOString_def Let_def isoYear_def)
  have "takeWhile (\<lambda>c. c \<noteq> CHR ''T'') (?a @ CHR ''T'' # rest) = ?a"
  proof (subst takeWhile_append2)
    show "\<And>c. c \<in> set ?a \<Longrightarrow> c \<noteq> CHR ''T''" using noT by blast
    show "?a @ takeWhile (\<lambda>c. c \<noteq> CHR ''T'') (CHR ''T'' # rest) = ?a" by simp
  qed
  then show ?thesis by (simp only: isoDate_def r)
qed






section \<open>The example engine\<close>









section \<open>The theorems at example documents\<close>

text \<open>The header mapping at a header with a drifted label and a key that is not there.\<close>
theorem autoMapHeaders_first_match_witness:
  "''rnday'' \<in> set gridKeys
   \<and> autoMapHeaders [''ROOM'', ''RN Day's''] gridKeys ''rnday'' = Some 1
   \<and> autoMapHeaders [''ROOM'', ''RN Day's''] gridKeys ''mrn'' = Some (- 1)"
proof -
  have k: "''rnday'' \<in> set gridKeys" by code_simp
  have v: "autoMapHeaders [''ROOM'', ''RN Day's''] gridKeys ''rnday'' = Some 1" by code_simp
  have w: "autoMapHeaders [''ROOM'', ''RN Day's''] gridKeys ''mrn'' = Some (- 1)" by code_simp
  show ?thesis
    using autoMapHeaders_first_match [of gridKeys "[''ROOM'', ''RN Day's'']"] k v w by blast
qed

text \<open>The slots of a two-room grid and of the two-table document.\<close>
theorem assignments_one_per_room_witness:
  "(\<exists>g. parseAssignmentsAndBottomSection exampleGrid 505 506 = Inr g
        \<and> length (gAssignments g) = 2 \<and> gAssignments g ! 1 = defaultRow 506)
   \<and> (\<exists>roster. parseRosterFromHtml (browser 0 0) exampleDoc = Inr roster
        \<and> length (assignments roster) = 32
        \<and> parseInt (room (assignments roster ! 11)) = Some 512)"
proof -
  have h: "headerRowIdx exampleGrid \<noteq> - 1" by code_simp
  then obtain g where g: "parseAssignmentsAndBottomSection exampleGrid 505 506 = Inr g"
    using parseGrid_error_iff by blast
  have u: "\<forall>row \<in> set (gridBody exampleGrid).
      \<not> claimsRoom 505 506 (gridColMap exampleGrid) row (505 + int 1)" by code_simp
  have d: "headerRowIdx (contentRows (tables exampleDoc)) \<noteq> - 1" by code_simp
  then obtain roster where r: "parseRosterFromHtml (browser 0 0) exampleDoc = Inr roster"
    using parseRoster_header_found by blast
  from assignments_one_per_room [of exampleGrid 505 506 g "browser 0 0" exampleDoc roster] g r u
  have "length (gAssignments g) = 2 \<and> gAssignments g ! 1 = defaultRow 506
      \<and> length (assignments roster) = 32
      \<and> parseInt (room (assignments roster ! 11)) = Some 512"
    by auto
  with g r show ?thesis by blast
qed

text \<open>
  The claim read as "the room text is the slot's number": the body row with the room text
  \<^verbatim>\<open>505abc\<close> is placed in the slot of room 505, and the slot keeps that text.
\<close>

theorem room_text_keeps_cell_text:
  "roomsOf (parseRosterFromHtml (browser 0 0) suffixDoc) ! 4 = ''505abc''
   \<and> toString (501 + 4) = ''505''
   \<and> roomsOf (parseRosterFromHtml (browser 0 0) suffixDoc) ! 4 \<noteq> toString (501 + 4)"
  by (intro conjI; code_simp)

text \<open>
  A room cell that starts with a no-break space is trimmed and placed like any other, and a
  header with a no-break space between its words is found under the key without it.
\<close>

lemma no_break_space_is_white_space:
  "trim (CHR 0xA0 # ''505'') = ''505''"
  "parseInt (CHR 0xA0 # ''505'') = Some 505"
  "autoMapHeaders [''RN'' @ CHR 0xA0 # ''DAYS''] gridKeys ''rnday'' = Some 0"
  by code_simp+

text \<open>Two rows for room 505: the slot holds the later row.\<close>
theorem duplicate_room_last_write_wins_witness:
  "\<exists>g. parseAssignmentsAndBottomSection exampleGrid 505 506 = Inr g
       \<and> patient (gAssignments g ! 0) = ''B. Roe'' \<and> rnDay (gAssignments g ! 0) = ''#7503''"
proof -
  let ?e = "rowOfCells [''505'', ''A. Poe'', ''#7502'']"
  let ?m = "rowOfCells [''999'', ''X'', ''Y'']"
  let ?l = "rowOfCells [''505'', ''B. Roe'', ''#7503'']"
  have h: "headerRowIdx exampleGrid \<noteq> - 1" by code_simp
  then obtain g where g: "parseAssignmentsAndBottomSection exampleGrid 505 506 = Inr g"
    using parseGrid_error_iff by blast
  have b: "gridBody exampleGrid = [] @ ?e # [?m] @ ?l # []" by code_simp
  have c1: "claimsRoom 505 506 (gridColMap exampleGrid) ?e 505" by code_simp
  have c2: "claimsRoom 505 506 (gridColMap exampleGrid) ?l 505" by code_simp
  have c3: "\<forall>row \<in> set []. \<not> claimsRoom 505 506 (gridColMap exampleGrid) row 505" by simp
  have p: "patient (buildRow (gridColMap exampleGrid) (cells ?l) (roomText (gridColMap exampleGrid) ?l))
      = ''B. Roe''" by code_simp
  have n: "rnDay (buildRow (gridColMap exampleGrid) (cells ?l) (roomText (gridColMap exampleGrid) ?l))
      = ''#7503''" by code_simp
  from duplicate_room_last_write_wins [OF g b c1 c2 c3]
  have "gAssignments g ! nat (505 - 505)
      = buildRow (gridColMap exampleGrid) (cells ?l) (roomText (gridColMap exampleGrid) ?l)"
    by (rule conjunct1)
  then have "gAssignments g ! 0
      = buildRow (gridColMap exampleGrid) (cells ?l) (roomText (gridColMap exampleGrid) ?l)"
    by simp
  with p n have "patient (gAssignments g ! 0) = ''B. Roe'' \<and> rnDay (gAssignments g ! 0) = ''#7503''"
    by (simp only:)
  with g show ?thesis by blast
qed

text \<open>Rows with the room texts 999, abc and none, and the unmapped column \<^verbatim>\<open>mrn\<close>.\<close>
theorem malformed_rows_are_skipped_witness:
  "parseInt (roomText (gridColMap exampleGrid) (rowOfCells [''999'', ''X'', ''Y''])) = Some 999
   \<and> placeRow 505 506 (gridColMap exampleGrid) (initialAssignments 505 506)
        (rowOfCells [''999'', ''X'', ''Y'']) = initialAssignments 505 506
   \<and> assignmentLoop 505 506 (gridColMap exampleGrid) (initialAssignments 505 506)
        [rowOfCells [''999'', ''X'', ''Y''], rowOfCells [''abc'', ''X'', ''Y''], rowOfCells []]
      = initialAssignments 505 506
   \<and> gridColMap exampleGrid ''mrn'' = Some (- 1)
   \<and> mrn (buildRow (gridColMap exampleGrid) (cells (rowOfCells [''505'', ''A. Poe'', ''#7502''])) ''505'') = []"
proof -
  let ?cm = "gridColMap exampleGrid"
  let ?r = "rowOfCells [''999'', ''X'', ''Y'']"
  have a: "parseInt (roomText ?cm ?r) = Some 999" by code_simp
  have b: "\<forall>row \<in> set [?r, rowOfCells [''abc'', ''X'', ''Y''], rowOfCells []].
      parseInt (roomText ?cm row) = None
      \<or> (\<exists>rm. parseInt (roomText ?cm row) = Some rm \<and> (rm < 505 \<or> 506 < rm))"
  proof -
    have "parseInt (roomText ?cm (rowOfCells [''abc'', ''X'', ''Y''])) = None" by code_simp
    moreover have "parseInt (roomText ?cm (rowOfCells [])) = None" by code_simp
    ultimately show ?thesis using a by simp
  qed
  have c: "?cm ''mrn'' = Some (- 1)" by code_simp
  note t = malformed_rows_are_skipped [of ?cm ?r 505 506 "initialAssignments 505 506"
      "[?r, rowOfCells [''abc'', ''X'', ''Y''], rowOfCells []]" "''mrn''"
      "cells (rowOfCells [''505'', ''A. Poe'', ''#7502''])"]
  from a have a': "\<exists>rm. parseInt (roomText ?cm ?r) = Some rm \<and> (rm < 505 \<or> 506 < rm)"
    by simp
  from t a' have 1: "placeRow 505 506 ?cm (initialAssignments 505 506) ?r = initialAssignments 505 506"
    by blast
  from t b have 2: "assignmentLoop 505 506 ?cm (initialAssignments 505 506)
      [?r, rowOfCells [''abc'', ''X'', ''Y''], rowOfCells []] = initialAssignments 505 506"
    by blast
  from t c have "getCellText (cellOf ?cm (cells (rowOfCells [''505'', ''A. Poe'', ''#7502''])) ''mrn'') = []"
    by blast
  then have 3: "mrn (buildRow ?cm (cells (rowOfCells [''505'', ''A. Poe'', ''#7502''])) ''505'') = []"
    by (simp add: buildRow_def)
  from a 1 2 c 3 show ?thesis by blast
qed


text \<open>A document in which no table has the marker: its first table is used.\<close>
theorem info_table_selection_witness:
  "tables noMarkerDoc \<noteq> []
   \<and> \<not> (\<exists>t \<in> set (tables noMarkerDoc). hasChargeMarker t)
   \<and> infoTableIdx (tables noMarkerDoc) = Some 0
   \<and> (\<exists>roster. parseRosterFromHtml (browser 0 0) noMarkerDoc = Inr roster)
   \<and> infoTableIdx (tables exampleDoc) = Some 0 \<and> hasChargeMarker (tables exampleDoc ! 0)"
proof -
  have a: "tables noMarkerDoc \<noteq> []" by code_simp
  have b: "\<forall>t \<in> set (tables noMarkerDoc). \<not> hasChargeMarker t"
    unfolding isInfoTable_iff [symmetric] by code_simp
  then have b': "\<forall>j < length (tables noMarkerDoc). \<not> hasChargeMarker (tables noMarkerDoc ! j)"
    by simp
  have c: "headerRowIdx (contentRows (tables noMarkerDoc)) \<noteq> - 1" by code_simp
  have d: "infoTableIdx (tables exampleDoc) = Some 0" by code_simp
  have e: "hasChargeMarker (tables exampleDoc ! 0)"
    unfolding isInfoTable_iff [symmetric] by code_simp
  from info_table_selection [of noMarkerDoc "browser 0 0"] a b' c
  have "infoTableIdx (tables noMarkerDoc) = Some 0
      \<and> (\<exists>roster. parseRosterFromHtml (browser 0 0) noMarkerDoc = Inr roster)"
    by auto
  with a b d e show ?thesis by blast
qed


text \<open>
  Claim C4, at the row \<^verbatim>\<open>CHARGE NURSE: #7501\<close> with the day-shift token \<^verbatim>\<open>7A-7P\<close>: the
  pattern of \<^verbatim>\<open>parseInfoTable\<close> wants a word character or a hyphen after the marker, the
  \<^verbatim>\<open>#\<close> is neither, so nothing matches and the day's charge nurse stays empty, in the
  information table and in the roster of the two-table document. Without the \<^verbatim>\<open>#\<close> the
  token is read.
\<close>
theorem charge_nurse_hash_token_not_read:
  "search matchChargeNurse ''CHARGE NURSE: #7501'' = None
   \<and> infoChargeNurses (parseInfoTable rt (tableOfCells [[''CHARGE NURSE: #7501'', ''7A-7P'']]))
       = \<lparr>day = [], night = []\<rparr>
   \<and> (\<exists>roster. parseRosterFromHtml rt exampleDoc = Inr roster
         \<and> chargeNurses roster = \<lparr>day = [], night = []\<rparr>)
   \<and> infoChargeNurses (parseInfoTable rt (tableOfCells [[''CHARGE NURSE: 7501 7A-7P'']]))
       = \<lparr>day = ''7501'', night = []\<rparr>"
proof (intro conjI)
  show "search matchChargeNurse ''CHARGE NURSE: #7501'' = None" by code_simp
  show "infoChargeNurses (parseInfoTable rt (tableOfCells [[''CHARGE NURSE: #7501'', ''7A-7P'']]))
       = \<lparr>day = [], night = []\<rparr>" by code_simp
  show "infoChargeNurses (parseInfoTable rt (tableOfCells [[''CHARGE NURSE: 7501 7A-7P'']]))
       = \<lparr>day = ''7501'', night = []\<rparr>" by code_simp
  have h: "headerRowIdx (contentRows (tables exampleDoc)) \<noteq> - 1" by code_simp
  have k: "infoTableIdx (tables exampleDoc) = Some 0" by code_simp
  have v: "infoChargeNurses (parseInfoTable rt (tables exampleDoc ! nat 0)) = \<lparr>day = [], night = []\<rparr>"
    by code_simp
  from parseRoster_info_part [OF h k, of rt] v
  show "\<exists>roster. parseRosterFromHtml rt exampleDoc = Inr roster
         \<and> chargeNurses roster = \<lparr>day = [], night = []\<rparr>" by simp
qed

text \<open>
  Claim C3, at the text \<^verbatim>\<open>Friday, April 4th, 2025\<close> in a browser two hours east of UTC: the
  match is cleaned to \<^verbatim>\<open>Friday April 4 2025\<close>, the engine reads it as midnight local time,
  which is 22:00 UTC of the day before, and \<^verbatim>\<open>toISOString\<close> writes the UTC date: the result
  is 2025-04-03.
\<close>
theorem long_date_shifts_east_of_utc:
  "parseDate (browser 120 now) ''Friday, April 4th, 2025'' = ''2025-04-03''
   \<and> longDateMatch ''Friday, April 4th, 2025'' = Some ''Friday, April 4th, 2025''
   \<and> cleaned ''Friday, April 4th, 2025'' = ''Friday April 4 2025''
   \<and> dateParse (browser 120 now) ''Friday April 4 2025'' = Some 1743717600000
   \<and> toISOString 1743717600000 = ''2025-04-03T22:00:00.000Z''"
  by (intro conjI; code_simp)

text \<open>
  The same text in every zone: the date is right at UTC and west of it, and one day early
  east of it. The other parts of the date examples: the ISO date, no date.
\<close>

lemma long_date_engine:
  "dateParse (browser tz now) ''Friday April 4 2025'' = Some (1743724800000 - tz * 60000)"
proof -
  have "isoDateOnly ''Friday April 4 2025'' = None" by code_simp
  moreover have "splitSpaces ''Friday April 4 2025'' = [''Friday'', ''April'', ''4'', ''2025'']"
    by code_simp
  moreover have "monthNumber ''April'' = Some 4" by code_simp
  moreover have "startsWithAny (toLowerCase (take 3 ''Friday'')) weekdayPrefixes" by code_simp
  moreover have "allDigits ''4''" "allDigits ''2025''" by code_simp+
  moreover have "digitsValue ''4'' = 4" "digitsValue ''2025'' = 2025" by code_simp+
  moreover have "daysFromCivil 2025 4 4 = 20182" by code_simp
  ultimately show ?thesis by (simp add: browser_def localLongDate_def)
qed

lemma long_date_by_zone:
  assumes "- 1440 < tz" "tz \<le> 1440"
  shows "parseDate (browser tz now) ''Friday, April 4th, 2025''
         = (if tz \<le> 0 then ''2025-04-04'' else ''2025-04-03'')"
proof -
  let ?t = "1743724800000 - tz * 60000"
  have m: "longDateMatch ''Friday, April 4th, 2025'' = Some ''Friday, April 4th, 2025''"
    by code_simp
  have c: "cleaned ''Friday, April 4th, 2025'' = ''Friday April 4 2025''" by code_simp
  have p: "parseDate (browser tz now) ''Friday, April 4th, 2025'' = isoDate ?t"
    by (simp add: parseDate_def m c long_date_engine)
  show ?thesis
  proof (cases "tz \<le> 0")
    case True
    then have dv: "?t div 86400000 = 20182" using assms by linarith
    have cv: "civilFromDays 20182 = (2025, 4, 4)" by code_simp
    have "isoDate ?t = padStart 4 (nat 2025) @ ''-'' @ padStart 2 (nat 4) @ ''-'' @ padStart 2 (nat 4)"
      by (rule isoDate_parts) (simp_all add: dv cv)
    also have "\<dots> = ''2025-04-04''" by code_simp
    finally show ?thesis using True p by simp
  next
    case False
    then have dv: "?t div 86400000 = 20181" using assms by linarith
    have cv: "civilFromDays 20181 = (2025, 4, 3)" by code_simp
    have "isoDate ?t = padStart 4 (nat 2025) @ ''-'' @ padStart 2 (nat 4) @ ''-'' @ padStart 2 (nat 3)"
      by (rule isoDate_parts) (simp_all add: dv cv)
    also have "\<dots> = ''2025-04-03''" by code_simp
    finally show ?thesis using False p by simp
  qed
qed


lemma long_date_at_utc_and_west:
  "parseDate (browser 0 now) ''Friday, April 4th, 2025'' = ''2025-04-04''"
  "parseDate (browser (- 300) now) ''Friday, April 4th, 2025'' = ''2025-04-04''"
  by code_simp+

lemma iso_date_only: "parseDate (browser tz now) ''2025-04-04'' = ''2025-04-04''"
  by code_simp

lemma parseDate_no_match:
  "longDateMatch input = None \<Longrightarrow> fallbackMatch input = None \<Longrightarrow>
   parseDate rt input = isoDate (clock rt)"
  by (simp add: parseDate_def)

lemma no_date_example: "parseDate (browser tz now) ''no date here'' = isoDate now"
  by code_simp

end
